theory Spec2Isabelle
  imports Complex_Main "HOL-Library.AList"
begin

section \<open>Python values, dictionaries and exceptions\<close>

text \<open>
  The agents pass rows of the record store and parsed JSON around as Python dictionaries.
  A value is one of the shapes \<open>json.loads\<close> produces; a dictionary is an association
  list in insertion order, written with \<open>AList.update\<close> as \<open>d[k] = v\<close> writes it.

  A float is a rational number (every finite double is one), an infinity, or NaN;
  \<open>json.loads\<close> reads the last three from \<open>Infinity\<close>, \<open>-Infinity\<close> and \<open>NaN\<close>.
\<close>

datatype pyfloat = Finite rat | PosInf | NegInf | NaN

datatype pyval =
    PNone
  | PBool bool
  | PInt int
  | PFloat pyfloat
  | PStr string
  | PList "pyval list"
  | PDict "(string \<times> pyval) list"

type_synonym dict = "(string \<times> pyval) list"

text \<open>Truth value of a Python object, as \<open>if x:\<close> and \<open>x or y\<close> test it.\<close>

fun truthy :: "pyval \<Rightarrow> bool" where
  "truthy PNone = False"
| "truthy (PBool b) = b"
| "truthy (PInt n) = (n \<noteq> 0)"
| "truthy (PFloat x) = (x \<noteq> Finite 0)"
| "truthy (PStr s) = (s \<noteq> [])"
| "truthy (PList xs) = (xs \<noteq> [])"
| "truthy (PDict d) = (d \<noteq> [])"

definition py_or :: "pyval \<Rightarrow> pyval \<Rightarrow> pyval" where
  "py_or a b = (if truthy a then a else b)"

text \<open>\<open>d.get(k)\<close> and \<open>d.get(k, default)\<close>.\<close>

definition dict_get_default :: "dict \<Rightarrow> string \<Rightarrow> pyval \<Rightarrow> pyval" where
  "dict_get_default d k dflt = (case map_of d k of None \<Rightarrow> dflt | Some v \<Rightarrow> v)"

definition dict_get :: "dict \<Rightarrow> string \<Rightarrow> pyval" where
  "dict_get d k = dict_get_default d k PNone"

text \<open>
  Exceptions are values. A RuntimeError carries the message the code raises it with, a
  KeyError the missing key, an HTTPError the status code of the reply. RequestException
  and APIError carry what the HTTP library and the completion client reported.
  The exceptions that the interpreter raises (TypeError, ValueError, AttributeError,
  OverflowError) and the one of the store's client (StoreError) carry nothing: the code
  only prints their wording or copies it into an error field, and branches on none of it.
\<close>

datatype py_error =
    RuntimeError string
  | KeyError string
  | TypeError
  | ValueError
  | AttributeError
  | OverflowError
  | HTTPError nat
  | RequestException string
  | APIError string
  | StoreError

text \<open>\<open>d[k]\<close> on a dictionary raises KeyError for a missing key.\<close>

definition getitem :: "dict \<Rightarrow> string \<Rightarrow> py_error + pyval" where
  "getitem d k = (case map_of d k of None \<Rightarrow> Inl (KeyError k) | Some v \<Rightarrow> Inr v)"

text \<open>
  \<open>x[k]\<close> with a string key on a parsed JSON value: only a dictionary can be subscripted
  so; \<open>x.get(k, default)\<close> exists on dictionaries only.
\<close>

definition py_subscript :: "pyval \<Rightarrow> string \<Rightarrow> py_error + pyval" where
  "py_subscript x k =
     (case x of
        PDict d \<Rightarrow> getitem d k
      | _ \<Rightarrow> Inl TypeError)"

definition py_get_method :: "pyval \<Rightarrow> string \<Rightarrow> pyval \<Rightarrow> py_error + pyval" where
  "py_get_method x k dflt =
     (case x of
        PDict d \<Rightarrow> Inr (dict_get_default d k dflt)
      | _ \<Rightarrow> Inl AttributeError)"

section \<open>Python string operations\<close>

text \<open>
  A character is a code point below 256 (Latin-1), and on these code points the
  operations below are Python's. White space, as \<open>strip\<close> and \<open>split\<close> see it, is the codes
  9 to 13, 28 to 32, 133 (next line) and 160 (no-break space). \<open>lower\<close> maps the
  capital letters, A to Z (65 to 90) and the accented capitals 192 to 214 and 216 to
  222, to the letter 32 places further on, and leaves every other character alone.
\<close>

definition py_isspace :: "char \<Rightarrow> bool" where
  "py_isspace c =
     (let n = (of_char c :: nat)
      in (9 \<le> n \<and> n \<le> 13) \<or> (28 \<le> n \<and> n \<le> 32) \<or> n = 133 \<or> n = 160)"

definition lower_char :: "char \<Rightarrow> char" where
  "lower_char c =
     (let n = (of_char c :: nat)
      in if (65 \<le> n \<and> n \<le> 90) \<or> (192 \<le> n \<and> n \<le> 214) \<or> (216 \<le> n \<and> n \<le> 222)
         then char_of (n + 32)
         else c)"

definition py_lower :: "string \<Rightarrow> string" where
  "py_lower s = map lower_char s"

definition py_lstrip :: "string \<Rightarrow> string" where
  "py_lstrip s = dropWhile py_isspace s"

definition py_rstrip :: "string \<Rightarrow> string" where
  "py_rstrip s = rev (dropWhile py_isspace (rev s))"

definition py_strip :: "string \<Rightarrow> string" where
  "py_strip s = py_rstrip (py_lstrip s)"

text \<open>\<open>s.rstrip(chars)\<close> for a one-character set.\<close>

definition py_rstrip_char :: "char \<Rightarrow> string \<Rightarrow> string" where
  "py_rstrip_char c s = rev (dropWhile (\<lambda>x. x = c) (rev s))"

definition py_startswith :: "string \<Rightarrow> string \<Rightarrow> bool" where
  "py_startswith s p = (take (length p) s = p)"

definition py_endswith :: "string \<Rightarrow> string \<Rightarrow> bool" where
  "py_endswith s p = (length p \<le> length s \<and> drop (length s - length p) s = p)"

text \<open>\<open>sub in s\<close> on strings.\<close>

fun py_contains :: "string \<Rightarrow> string \<Rightarrow> bool" where
  "py_contains sub [] = (sub = [])"
| "py_contains sub (c # cs) = (py_startswith (c # cs) sub \<or> py_contains sub cs)"

text \<open>\<open>s.find(c)\<close> and \<open>s.rfind(c)\<close> for one character: the index, or -1.\<close>

fun py_find :: "char \<Rightarrow> string \<Rightarrow> int" where
  "py_find c [] = - 1"
| "py_find c (x # xs) =
     (if x = c then 0 else (let r = py_find c xs in if r = - 1 then - 1 else r + 1))"

definition py_rfind :: "char \<Rightarrow> string \<Rightarrow> int" where
  "py_rfind c s =
     (let r = py_find c (rev s) in if r = - 1 then - 1 else int (length s) - 1 - r)"

text \<open>
  \<open>s.split(None, 1)\<close>: leading white space is dropped, the first word is cut off, and
  the rest, when anything but white space is left, is the second part with its own
  trailing white space kept.
\<close>

definition py_split_ws1 :: "string \<Rightarrow> string list" where
  "py_split_ws1 s =
     (let t = dropWhile py_isspace s in
      if t = [] then []
      else
        (let w = takeWhile (\<lambda>c. \<not> py_isspace c) t;
             r = dropWhile py_isspace (dropWhile (\<lambda>c. \<not> py_isspace c) t)
         in if r = [] then [w] else [w, r]))"

text \<open>\<open>a < b\<close> on strings: lexicographic by character code.\<close>

fun py_str_lt :: "string \<Rightarrow> string \<Rightarrow> bool" where
  "py_str_lt [] [] = False"
| "py_str_lt [] (y # ys) = True"
| "py_str_lt (x # xs) [] = False"
| "py_str_lt (x # xs) (y # ys) =
     (if x = y then py_str_lt xs ys else (of_char x :: nat) < of_char y)"

text \<open>
  \<open>int(x)\<close> as enrichment applies it to a revenue or funding figure. An integer or a
  boolean converts. A float is cut towards zero; an infinity raises OverflowError and
  NaN raises ValueError. A string converts when, with the white space around it
  removed, it is an optional sign followed by decimal digits, where single underscores
  may stand between digits. The white space \<open>int\<close> removes is narrower than that of
  \<open>strip\<close>: the codes 9 to 13, 32, 133 and 160, but not 28 to 31. A string of more
  digits than \<open>sys.int_max_str_digits\<close>, 4300 unless configured otherwise, raises
  ValueError. Anything else raises.
\<close>

definition digit_val :: "char \<Rightarrow> nat option" where
  "digit_val c = map_of (zip ''0123456789'' [0 ..< 10]) c"

text \<open>\<open>after_digit\<close> says whether the character before was a digit.\<close>

fun digits_val :: "nat \<Rightarrow> bool \<Rightarrow> string \<Rightarrow> nat option" where
  "digits_val acc after_digit [] = (if after_digit then Some acc else None)"
| "digits_val acc after_digit (c # cs) =
     (if c = CHR ''_'' then (if after_digit then digits_val acc False cs else None)
      else
        (case digit_val c of
           None \<Rightarrow> None
         | Some d \<Rightarrow> digits_val (10 * acc + d) True cs))"

definition int_isspace :: "char \<Rightarrow> bool" where
  "int_isspace c =
     (let n = (of_char c :: nat) in (9 \<le> n \<and> n \<le> 13) \<or> n = 32 \<or> n = 133 \<or> n = 160)"

definition int_max_str_digits :: nat where
  "int_max_str_digits = 4300"

definition int_of_str :: "string \<Rightarrow> py_error + int" where
  "int_of_str s =
     (let t = rev (dropWhile int_isspace (rev (dropWhile int_isspace s)));
          neg = (t \<noteq> [] \<and> hd t = CHR ''-'');
          body = (if t \<noteq> [] \<and> (hd t = CHR ''-'' \<or> hd t = CHR ''+'') then tl t else t)
      in case digits_val 0 False body of
           None \<Rightarrow> Inl ValueError
         | Some n \<Rightarrow>
             if int_max_str_digits < length (filter (\<lambda>c. c \<noteq> CHR ''_'') body)
             then Inl ValueError
             else Inr (if neg then - int n else int n))"

text \<open>The integer part of a rational, cut towards zero.\<close>

definition trunc_rat :: "rat \<Rightarrow> int" where
  "trunc_rat q = (if 0 \<le> q then \<lfloor>q\<rfloor> else \<lceil>q\<rceil>)"

fun py_int :: "pyval \<Rightarrow> py_error + int" where
  "py_int (PInt n) = Inr n"
| "py_int (PBool b) = Inr (if b then 1 else 0)"
| "py_int (PFloat (Finite q)) = Inr (trunc_rat q)"
| "py_int (PFloat PosInf) = Inl OverflowError"
| "py_int (PFloat NegInf) = Inl OverflowError"
| "py_int (PFloat NaN) = Inl ValueError"
| "py_int (PStr s) = int_of_str s"
| "py_int PNone = Inl TypeError"
| "py_int (PList xs) = Inl TypeError"
| "py_int (PDict d) = Inl TypeError"

section \<open>Identity matcher (enrich.py, find_linkedin_match)\<close>

text \<open>
  A row of the contact export as \<open>load_connections_csv\<close> builds it: seven string fields,
  each already stripped.
\<close>

record connection =
  first_name :: string
  last_name :: string
  email :: string
  company :: string
  position :: string
  linkedin_url :: string
  connected_on :: string

text \<open>The two \<open>for c in connections\<close> loops; each returns at its first hit.\<close>

fun exact_loop :: "string \<Rightarrow> string \<Rightarrow> connection list \<Rightarrow> connection option" where
  "exact_loop first_lower last_lower [] = None"
| "exact_loop first_lower last_lower (c # cs) =
     (if py_lower (first_name c) = first_lower \<and> py_lower (last_name c) = last_lower
      then Some c
      else exact_loop first_lower last_lower cs)"

fun prefix_loop :: "string \<Rightarrow> string \<Rightarrow> connection list \<Rightarrow> connection option" where
  "prefix_loop first_lower last_prefix [] = None"
| "prefix_loop first_lower last_prefix (c # cs) =
     (if py_lower (first_name c) = first_lower \<and>
         py_startswith (py_lower (last_name c)) last_prefix
      then Some c
      else prefix_loop first_lower last_prefix cs)"

definition find_linkedin_match ::
  "string \<Rightarrow> string \<Rightarrow> connection list \<Rightarrow> connection option" where
  "find_linkedin_match fname lname connections =
     (let first_lower = py_strip (py_lower fname);
          last_lower = py_strip (py_lower lname)
      in case exact_loop first_lower last_lower connections of
           Some c \<Rightarrow> Some c
         | None \<Rightarrow>
             if 3 \<le> length last_lower
             then prefix_loop first_lower (take 3 last_lower) connections
             else None)"

text \<open>
  The two tests as the code makes them. Lines 48 and 49 put the query in lower case and
  then remove the white space around it; \<open>query_key\<close> is that form of a query name.
  Lines 53 and 60 put a candidate's names in lower case only.
\<close>

definition query_key :: "string \<Rightarrow> string" where
  "query_key s = py_strip (py_lower s)"

definition exact_match :: "string \<Rightarrow> string \<Rightarrow> connection \<Rightarrow> bool" where
  "exact_match fname lname c =
     (py_lower (first_name c) = query_key fname \<and> py_lower (last_name c) = query_key lname)"

definition prefix_match :: "string \<Rightarrow> string \<Rightarrow> connection \<Rightarrow> bool" where
  "prefix_match fname lname c =
     (py_lower (first_name c) = query_key fname \<and>
      py_startswith (py_lower (last_name c)) (take 3 (query_key lname)))"

text \<open>\<open>first_at P xs i\<close>: position \<open>i\<close> holds the first element of \<open>xs\<close> that satisfies \<open>P\<close>.\<close>

definition first_at :: "('a \<Rightarrow> bool) \<Rightarrow> 'a list \<Rightarrow> nat \<Rightarrow> bool" where
  "first_at P xs i = (i < length xs \<and> P (xs ! i) \<and> list_all (\<lambda>x. \<not> P x) (take i xs))"

text \<open>
  The matcher in the words of the specification, for comparison with the code: names
  are compared without regard to case and with nothing removed; the fallback applies
  when the query's last name, as given, has at least 3 characters, and compares the
  first 3 characters of it.
\<close>

definition spec_exact_match :: "string \<Rightarrow> string \<Rightarrow> connection \<Rightarrow> bool" where
  "spec_exact_match fname lname c =
     (py_lower (first_name c) = py_lower fname \<and> py_lower (last_name c) = py_lower lname)"

definition spec_prefix_match :: "string \<Rightarrow> string \<Rightarrow> connection \<Rightarrow> bool" where
  "spec_prefix_match fname lname c =
     (py_lower (first_name c) = py_lower fname \<and>
      py_startswith (py_lower (last_name c)) (py_lower (take 3 lname)))"

definition spec_identity_match ::
  "string \<Rightarrow> string \<Rightarrow> connection list \<Rightarrow> connection option" where
  "spec_identity_match fname lname connections =
     (case List.find (spec_exact_match fname lname) connections of
        Some c \<Rightarrow> Some c
      | None \<Rightarrow>
          if 3 \<le> length lname
          then List.find (spec_prefix_match fname lname) connections
          else None)"

section \<open>People-data API client (apollo_client.py, match_person)\<close>

text \<open>
  What one \<open>requests.post\<close> does: it raises (a connection error or a timeout), or it
  returns a response with a status code and a body that \<open>resp.json()\<close> either parses
  or rejects with a message.
\<close>

datatype post_outcome =
    Post_raises string
  | Response nat "string + pyval"

text \<open>The effects of a call, in order: each request sent and each sleep, in seconds.\<close>

datatype effect = Post nat | Sleep nat

text \<open>
  The \<open>for attempt in range(3)\<close> loop with its \<open>else\<close> clause. \<open>post attempt\<close> is the
  outcome of the request of that attempt. The result is the exception that leaves the
  loop, \<open>Inr None\<close> for the \<open>return None\<close> on status 422, or \<open>Inr (Some data)\<close> when the
  loop ends at \<open>break\<close>.
\<close>

fun attempt_loop ::
  "(nat \<Rightarrow> post_outcome) \<Rightarrow> nat list \<Rightarrow> effect list \<Rightarrow> (py_error + pyval option) \<times> effect list" where
  "attempt_loop post [] eff =
     (Inl (RuntimeError ''Apollo API rate limit exceeded after 3 retries''), eff)"
| "attempt_loop post (attempt # rest) eff =
     (case post attempt of
        Post_raises m \<Rightarrow> (Inl (RequestException m), eff @ [Post attempt])
      | Response status_code body \<Rightarrow>
          if status_code = 429
          then attempt_loop post rest (eff @ [Post attempt, Sleep (10 * 2 ^ attempt)])
          else if 400 \<le> status_code \<and> status_code < 600
          then
            (if status_code = 429 then attempt_loop post rest (eff @ [Post attempt])
             else if status_code = 422 then (Inr None, eff @ [Post attempt])
             else (Inl (HTTPError status_code), eff @ [Post attempt]))
          else
            (case body of
               Inl m \<Rightarrow> (Inl (RequestException m), eff @ [Post attempt])
             | Inr data \<Rightarrow> (Inr (Some data), eff @ [Post attempt])))"

text \<open>Lines 72 to 101: the normalised dictionary built from the \<open>person\<close> of the reply.\<close>

definition normalize_person :: "pyval \<Rightarrow> py_error + dict option" where
  "normalize_person data =
     (case py_get_method data ''person'' PNone of
        Inl e \<Rightarrow> Inl e
      | Inr person \<Rightarrow>
          if \<not> truthy person then Inr None
          else
            (case person of
               PDict p \<Rightarrow>
                 (case py_get_method (py_or (dict_get p ''organization'') (PDict [])) ''name'' PNone of
                    Inl e \<Rightarrow> Inl e
                  | Inr org_name \<Rightarrow>
                      (let org = (case py_or (dict_get p ''organization'') (PDict []) of
                                    PDict od \<Rightarrow> od | _ \<Rightarrow> [])
                       in Inr (Some
                         [(''email'', py_or (dict_get p ''email'') (PStr [])),
                          (''email_status'', py_or (dict_get p ''email_status'') (PStr [])),
                          (''linkedin_url'', py_or (dict_get p ''linkedin_url'') (PStr [])),
                          (''title'', py_or (dict_get p ''title'') (PStr [])),
                          (''headline'', py_or (dict_get p ''headline'') (PStr [])),
                          (''city'', py_or (dict_get p ''city'') (PStr [])),
                          (''state'', py_or (dict_get p ''state'') (PStr [])),
                          (''country'', py_or (dict_get p ''country'') (PStr [])),
                          (''seniority'', py_or (dict_get p ''seniority'') (PStr [])),
                          (''departments'', py_or (dict_get p ''departments'') (PList [])),
                          (''photo_url'', py_or (dict_get p ''photo_url'') (PStr [])),
                          (''twitter_url'', py_or (dict_get p ''twitter_url'') (PStr [])),
                          (''github_url'', py_or (dict_get p ''github_url'') (PStr [])),
                          (''organization_name'', py_or org_name (PStr [])),
                          (''org_employee_count'', dict_get org ''estimated_num_employees''),
                          (''org_revenue'', dict_get org ''annual_revenue''),
                          (''org_total_funding'', dict_get org ''total_funding''),
                          (''org_industry'', py_or (dict_get org ''industry'') (PStr [])),
                          (''raw'', person)])))
             | _ \<Rightarrow> Inl AttributeError))"

text \<open>
  \<open>match_person\<close>. \<open>api_key\<close> is the configured APOLLO_API_KEY. The five arguments are
  tested for truth only (an empty payload returns None before any request).
\<close>

definition match_person ::
  "string \<Rightarrow> (nat \<Rightarrow> post_outcome) \<Rightarrow> pyval \<Rightarrow> pyval \<Rightarrow> pyval \<Rightarrow> pyval \<Rightarrow> pyval \<Rightarrow>
   (py_error + dict option) \<times> effect list" where
  "match_person api_key post fname lname organization_name linkedin email_arg =
     (if api_key = [] then (Inl (RuntimeError ''APOLLO_API_KEY not set in environment''), [])
      else if \<not> truthy fname \<and> \<not> truthy lname \<and> \<not> truthy organization_name \<and>
              \<not> truthy linkedin \<and> \<not> truthy email_arg
      then (Inr None, [])
      else
        (case attempt_loop post [0 ..< 3] [] of
           (Inl e, eff) \<Rightarrow> (Inl e, eff)
         | (Inr None, eff) \<Rightarrow> (Inr None, eff)
         | (Inr (Some data), eff) \<Rightarrow> (normalize_person data, eff)))"

section \<open>The record store\<close>

text \<open>
  A row of the enrichment log as \<open>log_enrichment\<close> builds it. Its error column holds
  the source, a colon and the text of the exception caught, or nothing; the row keeps
  the exception itself.
\<close>

record log_row =
  log_person_id :: pyval
  log_source :: string
  log_result :: pyval
  log_error :: "py_error option"

text \<open>
  The three tables the agents touch, each a list of rows, and the number of write
  requests issued so far. A write request may be refused by the store (it raises);
  \<open>fails n\<close> says whether the write request number \<open>n\<close> of the run is. Reads are taken
  to succeed. An inserted outreach row gets an \<open>id\<close> from the store.
\<close>

record db =
  people :: "dict list"
  outreach :: "dict list"
  enrichment_log :: "log_row list"
  writes :: nat

definition store_write :: "(nat \<Rightarrow> bool) \<Rightarrow> (db \<Rightarrow> db) \<Rightarrow> db \<Rightarrow> py_error option \<times> db" where
  "store_write fails f d =
     (let n = writes d; d' = d\<lparr>writes := Suc n\<rparr>
      in if fails n then (Some StoreError, d') else (None, f d'))"

text \<open>\<open>table.update(updates).eq("id", pid)\<close>: every row with that id takes the new fields.\<close>

definition update_rows :: "dict \<Rightarrow> pyval \<Rightarrow> dict list \<Rightarrow> dict list" where
  "update_rows updates pid rows =
     map (\<lambda>row. if dict_get row ''id'' = pid then AList.merge row updates else row) rows"

definition update_people :: "dict \<Rightarrow> pyval \<Rightarrow> db \<Rightarrow> db" where
  "update_people updates pid d = d\<lparr>people := update_rows updates pid (people d)\<rparr>"

definition update_outreach :: "dict \<Rightarrow> pyval \<Rightarrow> db \<Rightarrow> db" where
  "update_outreach updates oid d = d\<lparr>outreach := update_rows updates oid (outreach d)\<rparr>"

definition insert_outreach :: "dict \<Rightarrow> db \<Rightarrow> db" where
  "insert_outreach row d =
     d\<lparr>outreach := outreach d @ [AList.update ''id'' (PInt (int (writes d))) row]\<rparr>"

definition insert_log :: "log_row \<Rightarrow> db \<Rightarrow> db" where
  "insert_log row d = d\<lparr>enrichment_log := enrichment_log d @ [row]\<rparr>"

text \<open>A command-line option that Python finds true: given and not the empty string.\<close>

definition given :: "string option \<Rightarrow> string option" where
  "given a = (case a of None \<Rightarrow> None | Some s \<Rightarrow> if s = [] then None else Some s)"

section \<open>Enrichment stage (enrich.py)\<close>

text \<open>
  \<open>log_enrichment\<close>: nothing in a dry run; a refused insert is only a warning. \<open>err\<close> is
  the exception whose text, after the source and a colon, is the error passed in. The
  result is kept as the value it is (its serialisation by \<open>json.dumps\<close> is not modelled).
\<close>

definition log_enrichment ::
  "(nat \<Rightarrow> bool) \<Rightarrow> pyval \<Rightarrow> string \<Rightarrow> pyval \<Rightarrow> py_error option \<Rightarrow> bool \<Rightarrow> db \<Rightarrow> db" where
  "log_enrichment fails pid source result err dry_run d =
     (if dry_run then d
      else
        snd (store_write fails
               (insert_log
                  \<lparr>log_person_id = pid,
                   log_source = source,
                   log_result = (if truthy result then result else PNone),
                   log_error = err\<rparr>)
               d))"

text \<open>\<open>if cond: updates[k] = v\<close>.\<close>

definition set_if :: "bool \<Rightarrow> string \<Rightarrow> pyval \<Rightarrow> dict \<Rightarrow> dict" where
  "set_if cond k v updates = (if cond then AList.update k v updates else updates)"

text \<open>\<open>if v is not None: updates[k] = int(v)\<close>: the exception of \<open>int\<close>, or \<open>updates\<close> after it.\<close>

definition set_int_if_given :: "string \<Rightarrow> pyval \<Rightarrow> dict \<Rightarrow> py_error + dict" where
  "set_int_if_given k v updates =
     (if v = PNone then Inr updates
      else (case py_int v of Inl e \<Rightarrow> Inl e | Inr n \<Rightarrow> Inr (AList.update k (PInt n) updates)))"

text \<open>
  Lines 101 to 120, the body of \<open>if apollo_data:\<close>. An \<open>int()\<close> that raises leaves the
  block with the fields written so far still in \<open>updates\<close>; the result is the exception,
  if any, and \<open>updates\<close> as the block leaves it. The raw reply is kept as the value it is
  (its serialisation by \<open>json.dumps\<close> is not modelled).
\<close>

definition apollo_fill :: "dict \<Rightarrow> dict \<Rightarrow> py_error option \<times> dict" where
  "apollo_fill person apollo_data =
     (let u1 = set_if (truthy (dict_get apollo_data ''email'') \<and> \<not> truthy (dict_get person ''email''))
                 ''email'' (dict_get apollo_data ''email'') [];
          u2 = set_if (truthy (dict_get apollo_data ''linkedin_url'') \<and>
                       \<not> truthy (dict_get person ''linkedin''))
                 ''linkedin'' (dict_get apollo_data ''linkedin_url'') u1;
          u3 = set_if (truthy (dict_get apollo_data ''title'') \<and> \<not> truthy (dict_get person ''title''))
                 ''title'' (dict_get apollo_data ''title'') u2;
          u4 = set_if (truthy (dict_get apollo_data ''seniority''))
                 ''seniority'' (dict_get apollo_data ''seniority'') u3;
          u5 = set_if (dict_get apollo_data ''org_employee_count'' \<noteq> PNone)
                 ''org_employee_count'' (dict_get apollo_data ''org_employee_count'') u4
      in case set_int_if_given ''org_revenue'' (dict_get apollo_data ''org_revenue'') u5 of
           Inl e \<Rightarrow> (Some e, u5)
         | Inr u6 \<Rightarrow>
             (case set_int_if_given ''org_total_funding''
                     (dict_get apollo_data ''org_total_funding'') u6 of
                Inl e \<Rightarrow> (Some e, u6)
              | Inr u7 \<Rightarrow>
                  (let u8 = set_if (truthy (dict_get apollo_data ''org_industry''))
                              ''org_industry'' (dict_get apollo_data ''org_industry'') u7
                   in case getitem apollo_data ''raw'' of
                        Inl e \<Rightarrow> (Some e, u8)
                      | Inr raw \<Rightarrow> (None, AList.update ''apollo_data'' raw u8))))"

text \<open>
  Line 146 to 148: the note appended to the context unless it is there already. The
  membership test and the concatenation raise TypeError on a context that is neither
  a string nor, with the marker among its members, a list or a dictionary.
\<close>

definition connection_note :: "pyval \<Rightarrow> py_error + pyval option" where
  "connection_note existing_context =
     (case existing_context of
        PStr s \<Rightarrow>
          if py_contains ''[1st-degree LinkedIn connection]'' s then Inr None
          else Inr (Some (PStr (py_strip (s @ '' [1st-degree LinkedIn connection]''))))
      | PList xs \<Rightarrow>
          if PStr ''[1st-degree LinkedIn connection]'' \<in> set xs then Inr None
          else Inl TypeError
      | PDict d \<Rightarrow>
          if ''[1st-degree LinkedIn connection]'' \<in> fst ` set d then Inr None
          else Inl TypeError
      | _ \<Rightarrow> Inl TypeError)"

text \<open>
  Lines 136 to 148, the body of \<open>if linkedin_match:\<close>: the exception, if any, and
  \<open>updates\<close> as the block leaves it.
\<close>

definition linkedin_fill :: "dict \<Rightarrow> connection \<Rightarrow> dict \<Rightarrow> py_error option \<times> dict" where
  "linkedin_fill person linkedin_match updates =
     (let u1 = set_if (email linkedin_match \<noteq> [] \<and> \<not> truthy (dict_get person ''email'') \<and>
                       map_of updates ''email'' = None)
                 ''email'' (PStr (email linkedin_match)) updates;
          u2 = set_if (linkedin_url linkedin_match \<noteq> [] \<and> \<not> truthy (dict_get person ''linkedin'') \<and>
                       map_of u1 ''linkedin'' = None)
                 ''linkedin'' (PStr (linkedin_url linkedin_match)) u1;
          u3 = set_if (position linkedin_match \<noteq> [] \<and> \<not> truthy (dict_get person ''title'') \<and>
                       map_of u2 ''title'' = None)
                 ''title'' (PStr (position linkedin_match)) u2
      in case connection_note (py_or (dict_get person ''context'') (PStr [])) of
           Inl e \<Rightarrow> (Some e, u3)
         | Inr None \<Rightarrow> (None, u3)
         | Inr (Some c) \<Rightarrow> (None, AList.update ''context'' c u3))"

text \<open>The matched contact as the dictionary that is logged.\<close>

definition connection_dict :: "connection \<Rightarrow> pyval" where
  "connection_dict c =
     PDict [(''first_name'', PStr (first_name c)), (''last_name'', PStr (last_name c)),
            (''email'', PStr (email c)), (''company'', PStr (company c)),
            (''position'', PStr (position c)), (''linkedin_url'', PStr (linkedin_url c)),
            (''connected_on'', PStr (connected_on c))]"

text \<open>
  The summary dictionary \<open>enrich_person\<close> returns. Its error field is None or a text:
  \<open>apollo:\<close> and the text of the exception caught in step 1, if there was one, followed
  by \<open>update:\<close> and the text of the exception caught in step 3, if there was one.
  \<open>r_error\<close> holds the two exceptions; the field is None when both are absent and a
  non-empty text otherwise.
\<close>

record enrich_result =
  r_person_id :: pyval
  r_name :: pyval
  r_apollo :: bool
  r_linkedin :: bool
  r_error :: "py_error option \<times> py_error option"

text \<open>
  Step 1, lines 94 to 127: the call of \<open>match_person\<close> inside \<open>try\<close>, every exception
  caught and written to the error field. The result is (apollo_data, result["apollo"],
  result["error"], updates).
\<close>

definition apollo_step ::
  "string \<Rightarrow> (nat \<Rightarrow> post_outcome) \<Rightarrow> dict \<Rightarrow> string \<Rightarrow> string \<Rightarrow>
   pyval \<times> bool \<times> py_error option \<times> dict" where
  "apollo_step api_key post person fname lname =
     (case fst (match_person api_key post (PStr fname) (PStr lname)
                  (py_or (dict_get person ''organization'') (PStr [])) (PStr []) (PStr [])) of
        Inl e \<Rightarrow> (PNone, False, Some e, [])
      | Inr None \<Rightarrow> (PNone, False, None, [])
      | Inr (Some apollo_data) \<Rightarrow>
          if apollo_data = [] then (PDict [], False, None, [])
          else
            (case apollo_fill person apollo_data of
               (Some e, updates) \<Rightarrow> (PDict apollo_data, True, Some e, updates)
             | (None, updates) \<Rightarrow> (PDict apollo_data, True, None, updates)))"

text \<open>
  Step 2, lines 129 to 155: (linkedin_match, result["linkedin"], linkedin_error, updates).
\<close>

definition linkedin_step ::
  "dict \<Rightarrow> string \<Rightarrow> string \<Rightarrow> connection list option \<Rightarrow> dict \<Rightarrow>
   pyval \<times> bool \<times> py_error option \<times> dict" where
  "linkedin_step person fname lname connections updates =
     (case connections of
        None \<Rightarrow> (PNone, False, None, updates)
      | Some cs \<Rightarrow>
          (case find_linkedin_match fname lname cs of
             None \<Rightarrow> (PNone, False, None, updates)
           | Some m \<Rightarrow>
               (case linkedin_fill person m updates of
                  (Some e, u) \<Rightarrow> (connection_dict m, True, Some e, u)
                | (None, u) \<Rightarrow> (connection_dict m, True, None, u))))"

text \<open>
  Step 3, lines 157 to 174: the write of the person row. With fields to write the
  status is added to them; without, the status alone is written. A refused write is
  added to the error field in the first case and is only a warning in the second. A dry
  run writes nothing. \<open>err\<close> is the exception of step 1; the result is the error field
  and the store.
\<close>

definition update_step ::
  "(nat \<Rightarrow> bool) \<Rightarrow> pyval \<Rightarrow> dict \<Rightarrow> bool \<Rightarrow> py_error option \<Rightarrow> db \<Rightarrow>
   (py_error option \<times> py_error option) \<times> db" where
  "update_step fails pid updates dry_run err d =
     (if updates \<noteq> [] then
        (if dry_run then ((err, None), d)
         else
           (case store_write fails
                   (update_people (AList.update ''status'' (PStr ''enriched'') updates) pid) d of
              (None, d') \<Rightarrow> ((err, None), d')
            | (Some e, d') \<Rightarrow> ((err, Some e), d')))
      else if \<not> dry_run then
        ((err, None), snd (store_write fails (update_people [(''status'', PStr ''enriched'')] pid) d))
      else ((err, None), d))"

text \<open>
  Lines 86 to 88: the first word of the name and the rest of it; a name without a word
  is its own first name.
\<close>

definition name_parts :: "string \<Rightarrow> string \<times> string" where
  "name_parts name =
     (let parts = py_split_ws1 name
      in (case parts of [] \<Rightarrow> name | p # _ \<Rightarrow> p,
          case parts of _ # q # _ \<Rightarrow> q | _ \<Rightarrow> []))"

text \<open>
  \<open>enrich_person\<close>. A row without \<open>id\<close> or \<open>name\<close>, or with a name that is not a string,
  raises before anything is done.
\<close>

definition enrich_person ::
  "string \<Rightarrow> (nat \<Rightarrow> post_outcome) \<Rightarrow> (nat \<Rightarrow> bool) \<Rightarrow> dict \<Rightarrow> connection list option \<Rightarrow> bool \<Rightarrow>
   db \<Rightarrow> py_error + enrich_result \<times> db" where
  "enrich_person api_key post fails person connections dry_run d =
     (case getitem person ''id'' of
        Inl e \<Rightarrow> Inl e
      | Inr pid \<Rightarrow>
          (case getitem person ''name'' of
             Inl e \<Rightarrow> Inl e
           | Inr (PStr name) \<Rightarrow>
               (let (fname, lname) = name_parts name;
                    (apollo_data, apollo, err, u1) = apollo_step api_key post person fname lname;
                    d1 = log_enrichment fails pid ''apollo'' apollo_data err dry_run d;
                    (linkedin_match, linkedin, linkedin_error, u2) =
                       linkedin_step person fname lname connections u1;
                    d2 = log_enrichment fails pid ''linkedin_csv'' linkedin_match linkedin_error
                           dry_run d1;
                    (err', d3) = update_step fails pid u2 dry_run err d2
                in Inr (\<lparr>r_person_id = pid, r_name = PStr name, r_apollo = apollo,
                          r_linkedin = linkedin, r_error = err'\<rparr>, d3))
           | Inr _ \<Rightarrow> Inl AttributeError))"

text \<open>\<open>get_people\<close>: the row with the given id, or the rows in status discovered.\<close>

definition get_people :: "string option \<Rightarrow> string option \<Rightarrow> db \<Rightarrow> dict list" where
  "get_people person_id for_tag d =
     (let q1 = (case given person_id of
                  Some pid \<Rightarrow> filter (\<lambda>row. dict_get row ''id'' = PStr pid) (people d)
                | None \<Rightarrow> filter (\<lambda>row. dict_get row ''status'' = PStr ''discovered'') (people d))
      in case given for_tag of
           Some tag \<Rightarrow> filter (\<lambda>row. dict_get row ''for_tag'' = PStr tag) q1
         | None \<Rightarrow> q1)"

text \<open>
  The loop of \<open>main\<close>. \<open>apollo i\<close> gives the replies of the people-data API while the
  person at position \<open>i\<close> of the batch is processed. The head line printed at line 215,
  before \<open>enrich_person\<close> is called, reads \<open>person['name']\<close>, so a row without a name
  ends the run there. An exception that \<open>enrich_person\<close> does not catch ends the run.
\<close>

fun enrich_loop ::
  "string \<Rightarrow> (nat \<Rightarrow> nat \<Rightarrow> post_outcome) \<Rightarrow> (nat \<Rightarrow> bool) \<Rightarrow> connection list option \<Rightarrow> bool \<Rightarrow>
   nat \<Rightarrow> dict list \<Rightarrow> enrich_result list \<Rightarrow> db \<Rightarrow> py_error option \<times> enrich_result list \<times> db" where
  "enrich_loop api_key apollo fails connections dry_run i [] results d = (None, results, d)"
| "enrich_loop api_key apollo fails connections dry_run i (person # rest) results d =
     (case getitem person ''name'' of
        Inl e \<Rightarrow> (Some e, results, d)
      | Inr _ \<Rightarrow>
          (case enrich_person api_key (apollo i) fails person connections dry_run d of
             Inl e \<Rightarrow> (Some e, results, d)
           | Inr (result, d') \<Rightarrow>
               enrich_loop api_key apollo fails connections dry_run (Suc i) rest
                 (results @ [result]) d'))"

text \<open>
  \<open>main\<close> of enrich.py: the exception that ended the run if any, the per-person results,
  the store afterwards and the exit code.
\<close>

definition enrich_main ::
  "string \<Rightarrow> (nat \<Rightarrow> nat \<Rightarrow> post_outcome) \<Rightarrow> (nat \<Rightarrow> bool) \<Rightarrow> string option \<Rightarrow> bool \<Rightarrow>
   connection list option \<Rightarrow> string option \<Rightarrow> db \<Rightarrow> py_error option \<times> enrich_result list \<times> db \<times> nat" where
  "enrich_main api_key apollo fails person_id dry_run connections for_tag d =
     (case enrich_loop api_key apollo fails connections dry_run 0
             (get_people person_id for_tag d) [] d of
        (Some e, results, d') \<Rightarrow> (Some e, results, d', 1)
      | (None, results, d') \<Rightarrow>
          (None, results, d', if list_ex (\<lambda>r. r_error r \<noteq> (None, None)) results then 1 else 0))"

text \<open>The pipeline's states in order; enrichment regresses a status when it lowers this.\<close>

definition status_rank :: "pyval \<Rightarrow> nat" where
  "status_rank s =
     (if s = PStr ''discovered'' then 0
      else if s = PStr ''enriched'' then 1
      else if s = PStr ''outreach_drafted'' then 2
      else 0)"

section \<open>Completions and the structured output extractor (extract.py, score.py)\<close>

text \<open>
  What one \<open>client.messages.create\<close> does: it raises RateLimitError, it raises
  something else, or it returns a completion with its text and its stop reason.
\<close>

datatype llm_outcome =
    Rate_limited
  | Llm_raises string
  | Completion string string

text \<open>
  The retry loop that extract.py, score.py and draft.py each wrap around the call:
  three attempts, a sleep of \<open>2 ** attempt * 5\<close> seconds after a rate limit, and the
  RuntimeError of the \<open>else\<close> clause when no attempt got through. The second component
  lists the sleeps.
\<close>

fun claude_call ::
  "(nat \<Rightarrow> llm_outcome) \<Rightarrow> nat list \<Rightarrow> nat list \<Rightarrow> (py_error + string \<times> string) \<times> nat list" where
  "claude_call llm [] waits =
     (Inl (RuntimeError ''Claude API rate limit exceeded after 3 retries''), waits)"
| "claude_call llm (attempt # rest) waits =
     (case llm attempt of
        Rate_limited \<Rightarrow> claude_call llm rest (waits @ [2 ^ attempt * 5])
      | Llm_raises m \<Rightarrow> (Inl (APIError m), waits)
      | Completion txt stop_reason \<Rightarrow> (Inr (txt, stop_reason), waits))"

text \<open>
  \<open>if s.startswith("```"): s = s.split("\n", 1)[-1] if "\n" in s else s[3:]\<close>
\<close>

definition strip_code_fence :: "string \<Rightarrow> string" where
  "strip_code_fence s =
     (if py_startswith s [CHR 0x60, CHR 0x60, CHR 0x60]
      then (if CHR 0x0A \<in> set s then drop (nat (py_find (CHR 0x0A) s + 1)) s else drop 3 s)
      else s)"

text \<open>
  Lines 57 to 67 of extract.py: the completion trimmed, its code fence and trailing
  backquotes removed, and everything before the first opening bracket discarded.
\<close>

definition array_text :: "string \<Rightarrow> string" where
  "array_text content =
     (let s1 = strip_code_fence (py_strip content);
          s2 = py_strip (py_rstrip_char (CHR 0x60) s1);
          array_start = py_find (CHR ''['') s2
      in if array_start \<noteq> - 1 then drop (nat array_start) s2 else s2)"

text \<open>
  Lines 69 to 73: the repair of a truncated array, and with it the text handed to
  \<open>json.loads\<close>, from the completion's stop reason and text.
\<close>

definition extract_json_str :: "string \<Rightarrow> string \<Rightarrow> string" where
  "extract_json_str stop_reason content =
     (let json_str = array_text content
      in if stop_reason = ''max_tokens'' \<or> \<not> py_endswith json_str '']''
         then
           (let last_complete = py_rfind (CHR ''}'') json_str
            in if last_complete \<noteq> - 1
               then take (nat (last_complete + 1)) json_str @ '']''
               else json_str)
         else json_str)"

text \<open>
  \<open>extract_people\<close>. \<open>loads\<close> stands for \<open>json.loads\<close> of the standard library: the parsed
  value, or the exception it raises on text that is not JSON.
\<close>

definition extract_people ::
  "(string \<Rightarrow> py_error + pyval) \<Rightarrow> (nat \<Rightarrow> llm_outcome) \<Rightarrow> py_error + pyval" where
  "extract_people loads llm =
     (case fst (claude_call llm [0 ..< 3] []) of
        Inl e \<Rightarrow> Inl e
      | Inr (content, stop_reason) \<Rightarrow> loads (extract_json_str stop_reason content))"

text \<open>
  Lines 149 to 153 of score.py (and the same lines of draft.py): the text handed to
  \<open>json.loads\<close> for a single-object reply.
\<close>

definition object_json_str :: "string \<Rightarrow> string" where
  "object_json_str content =
     py_strip (py_rstrip_char (CHR 0x60) (strip_code_fence (py_strip content)))"

text \<open>
  \<open>score_person\<close>. The prompt only feeds the request; what its assembly (lines 114 to
  132) can do to the control flow is raise, and \<open>prompt_exc\<close> is that exception, if any.
\<close>

definition score_person ::
  "(string \<Rightarrow> py_error + pyval) \<Rightarrow> py_error option \<Rightarrow> (nat \<Rightarrow> llm_outcome) \<Rightarrow> py_error + pyval" where
  "score_person loads prompt_exc llm =
     (case prompt_exc of
        Some e \<Rightarrow> Inl e
      | None \<Rightarrow>
          (case fst (claude_call llm [0 ..< 3] []) of
             Inl e \<Rightarrow> Inl e
           | Inr (content, stop_reason) \<Rightarrow> loads (object_json_str content)))"

text \<open>
  The repair step in the words of the specification: cut at the last closing brace,
  then append the closing bracket.
\<close>

definition spec_truncation_repair :: "string \<Rightarrow> string" where
  "spec_truncation_repair s = take (nat (py_rfind (CHR ''}'') s + 1)) s @ '']''"

section \<open>Scoring stage (score.py)\<close>

text \<open>
  The comprehension \<open>[p for p in rows if not p.get("scored_at") or p["scored_at"] < cutoff]\<close>.
  Comparing a time stamp that is not a string with the cutoff raises TypeError.
\<close>

fun stale_rows :: "string \<Rightarrow> dict list \<Rightarrow> py_error + dict list" where
  "stale_rows cutoff [] = Inr []"
| "stale_rows cutoff (p # ps) =
     (if \<not> truthy (dict_get p ''scored_at'')
      then (case stale_rows cutoff ps of Inl e \<Rightarrow> Inl e | Inr qs \<Rightarrow> Inr (p # qs))
      else
        (case dict_get p ''scored_at'' of
           PStr scored_at \<Rightarrow>
             (case stale_rows cutoff ps of
                Inl e \<Rightarrow> Inl e
              | Inr qs \<Rightarrow> Inr (if py_str_lt scored_at cutoff then p # qs else qs))
         | _ \<Rightarrow> Inl TypeError))"

text \<open>
  \<open>get_people_to_score\<close>. \<open>cutoff\<close> is the ISO text of the current time less
  SCORE_STALE_DAYS = 7 days.
\<close>

definition get_people_to_score ::
  "string \<Rightarrow> string option \<Rightarrow> string option \<Rightarrow> bool \<Rightarrow> db \<Rightarrow> py_error + dict list" where
  "get_people_to_score cutoff person_id for_tag force d =
     (let rows =
            (case given person_id of
               Some pid \<Rightarrow> filter (\<lambda>row. dict_get row ''id'' = PStr pid) (people d)
             | None \<Rightarrow>
                 (let q = filter (\<lambda>row. dict_get row ''status'' = PStr ''enriched'') (people d)
                  in case given for_tag of
                       Some tag \<Rightarrow> filter (\<lambda>row. dict_get row ''for_tag'' = PStr tag) q
                     | None \<Rightarrow> q))
      in if force then Inr rows else stale_rows cutoff rows)"

text \<open>
  Lines 201 to 206: what the loop reads from the result before it writes, in the order
  it reads it: the total, the summary, the shared background and the three sub-scores.
  Only the subscripts can raise on a dictionary; on anything else the first one does.
\<close>

definition read_result ::
  "pyval \<Rightarrow> py_error + pyval \<times> pyval \<times> pyval \<times> pyval \<times> pyval \<times> pyval" where
  "read_result result =
     (case py_subscript result ''total_score'' of
        Inl e \<Rightarrow> Inl e
      | Inr total_score \<Rightarrow>
     (case py_get_method result ''summary'' (PStr []) of
        Inl e \<Rightarrow> Inl e
      | Inr summary \<Rightarrow>
     (case py_get_method result ''proximity_reasons'' (PStr []) of
        Inl e \<Rightarrow> Inl e
      | Inr shared \<Rightarrow>
     (case py_subscript result ''proximity_score'' of
        Inl e \<Rightarrow> Inl e
      | Inr proximity \<Rightarrow>
     (case py_subscript result ''relevance_score'' of
        Inl e \<Rightarrow> Inl e
      | Inr relevance \<Rightarrow>
     (case py_subscript result ''urgency_score'' of
        Inl e \<Rightarrow> Inl e
      | Inr urgency \<Rightarrow> Inr (total_score, summary, shared, proximity, relevance, urgency)))))))"

text \<open>
  The body of the \<open>try\<close> in \<open>main\<close>, lines 200 to 221, for one person: the exception that
  the \<open>except\<close> clause catches, if any, and the store afterwards. The reasons are kept as
  the list of their four parts (the formatting of numbers into text is not modelled);
  \<open>now\<close> is the ISO text of the time of the write.
\<close>

definition score_one ::
  "(string \<Rightarrow> py_error + pyval) \<Rightarrow> py_error option \<Rightarrow> (nat \<Rightarrow> llm_outcome) \<Rightarrow> (nat \<Rightarrow> bool) \<Rightarrow>
   string \<Rightarrow> bool \<Rightarrow> dict \<Rightarrow> db \<Rightarrow> py_error option \<times> db" where
  "score_one loads prompt_exc llm fails now dry_run person d =
     (case score_person loads prompt_exc llm of
        Inl e \<Rightarrow> (Some e, d)
      | Inr result \<Rightarrow>
          (case read_result result of
             Inl e \<Rightarrow> (Some e, d)
           | Inr (total_score, summary, shared, proximity, relevance, urgency) \<Rightarrow>
               if dry_run then (None, d)
               else
                 (case getitem person ''id'' of
                    Inl e \<Rightarrow> (Some e, d)
                  | Inr pid \<Rightarrow>
                      store_write fails
                        (update_people
                           [(''priority_score'', total_score),
                            (''priority_reasons'', PList [proximity, relevance, urgency, summary]),
                            (''shared_background'', shared),
                            (''scored_at'', PStr now)]
                           pid)
                        d)))"




text \<open>The number a JSON value stands for, if it is a number.\<close>

definition num_val :: "pyval \<Rightarrow> rat option" where
  "num_val v =
     (case v of
        PInt n \<Rightarrow> Some (of_int n)
      | PFloat (Finite q) \<Rightarrow> Some q
      | _ \<Rightarrow> None)"

text \<open>
  The aggregation contract of the specification, as a test on a parsed result: the four
  scores are numbers, the three sub-scores lie within their bounds, and the total is
  their sum and lies within 0 to 100.
\<close>

definition score_contract :: "pyval \<Rightarrow> bool" where
  "score_contract result =
     (case (py_subscript result ''total_score'', py_subscript result ''proximity_score'',
            py_subscript result ''relevance_score'', py_subscript result ''urgency_score'') of
        (Inr tv, Inr pv, Inr rv, Inr uv) \<Rightarrow>
          (case (num_val tv, num_val pv, num_val rv, num_val uv) of
             (Some t, Some p, Some r, Some u) \<Rightarrow>
               t = p + r + u \<and> 0 \<le> p \<and> p \<le> 30 \<and> 0 \<le> r \<and> r \<le> 40 \<and> 0 \<le> u \<and> u \<le> 30 \<and>
               0 \<le> t \<and> t \<le> 100
           | _ \<Rightarrow> False)
      | _ \<Rightarrow> False)"

section \<open>Drafting stage (draft.py)\<close>

text \<open>\<open>get_people_to_draft\<close>: the row with the given id, or the enriched rows whose score
  is set and at least \<open>min_score\<close>; then the tag filter. The store compares numbers by
  value.\<close>

definition get_people_to_draft :: "string option \<Rightarrow> string option \<Rightarrow> int \<Rightarrow> db \<Rightarrow> dict list" where
  "get_people_to_draft person_id for_tag min_score d =
     (let q1 = (case given person_id of
                  Some pid \<Rightarrow> filter (\<lambda>row. dict_get row ''id'' = PStr pid) (people d)
                | None \<Rightarrow>
                    filter (\<lambda>row. dict_get row ''status'' = PStr ''enriched'' \<and>
                                  (case dict_get row ''priority_score'' of
                                     PInt n \<Rightarrow> min_score \<le> n
                                   | PFloat (Finite q) \<Rightarrow> of_int min_score \<le> q
                                   | PFloat PosInf \<Rightarrow> True
                                   | _ \<Rightarrow> False))
                      (people d))
      in case given for_tag of
           Some tag \<Rightarrow> filter (\<lambda>row. dict_get row ''for_tag'' = PStr tag) q1
         | None \<Rightarrow> q1)"

text \<open>\<open>get_already_drafted_ids\<close>: the person of every outreach row.\<close>

definition get_already_drafted_ids :: "db \<Rightarrow> pyval list" where
  "get_already_drafted_ids d = map (\<lambda>row. dict_get row ''person_id'') (outreach d)"

text \<open>The comprehension \<open>[p for p in people if p["id"] not in already_drafted]\<close>.\<close>

fun drop_drafted :: "pyval list \<Rightarrow> dict list \<Rightarrow> py_error + dict list" where
  "drop_drafted already_drafted [] = Inr []"
| "drop_drafted already_drafted (p # ps) =
     (case getitem p ''id'' of
        Inl e \<Rightarrow> Inl e
      | Inr pid \<Rightarrow>
          (case drop_drafted already_drafted ps of
             Inl e \<Rightarrow> Inl e
           | Inr qs \<Rightarrow> Inr (if pid \<in> set already_drafted then qs else p # qs)))"

text \<open>
  \<open>draft_email\<close>: the prompt (whose assembly may raise, as for scoring), the call with
  its retries, and the parse of the reply.
\<close>

definition draft_email ::
  "(string \<Rightarrow> py_error + pyval) \<Rightarrow> py_error option \<Rightarrow> (nat \<Rightarrow> llm_outcome) \<Rightarrow> py_error + pyval" where
  "draft_email loads prompt_exc llm =
     (case prompt_exc of
        Some e \<Rightarrow> Inl e
      | None \<Rightarrow>
          (case fst (claude_call llm [0 ..< 3] []) of
             Inl e \<Rightarrow> Inl e
           | Inr (content, stop_reason) \<Rightarrow> loads (object_json_str content)))"

text \<open>
  The body of the \<open>try\<close> in \<open>main\<close>, lines 261 to 290, for one person: the exception
  caught, if any, and the store afterwards. The preview slices the body and appends a
  string to it, which only a string body survives.
\<close>

definition draft_one ::
  "(string \<Rightarrow> py_error + pyval) \<Rightarrow> py_error option \<Rightarrow> (nat \<Rightarrow> llm_outcome) \<Rightarrow> (nat \<Rightarrow> bool) \<Rightarrow>
   bool \<Rightarrow> dict \<Rightarrow> db \<Rightarrow> py_error option \<times> db" where
  "draft_one loads prompt_exc llm fails dry_run person d =
     (case draft_email loads prompt_exc llm of
        Inl e \<Rightarrow> (Some e, d)
      | Inr result \<Rightarrow>
     (case py_subscript result ''subject'' of
        Inl e \<Rightarrow> (Some e, d)
      | Inr subject \<Rightarrow>
     (case py_subscript result ''body'' of
        Inl e \<Rightarrow> (Some e, d)
      | Inr (PStr body) \<Rightarrow>
          if dry_run then (None, d)
          else
            (case getitem person ''id'' of
               Inl e \<Rightarrow> (Some e, d)
             | Inr pid \<Rightarrow>
                 (case store_write fails
                         (insert_outreach
                            [(''person_id'', pid),
                             (''channel'', PStr ''email''),
                             (''subject'', subject),
                             (''body'', PStr body),
                             (''status'', PStr ''drafted'')])
                         d of
                    (Some e, d1) \<Rightarrow> (Some e, d1)
                  | (None, d1) \<Rightarrow>
                      store_write fails
                        (update_people [(''status'', PStr ''outreach_drafted'')] pid) d1))
      | Inr _ \<Rightarrow> (Some TypeError, d))))"

record draft_summary =
  drafted :: nat
  skipped :: nat
  draft_errors :: nat

text \<open>
  The loop of \<open>main\<close>. \<open>has_template tag\<close> says whether \<open>load_templates\<close> finds the
  introductory template of the tag; without it the person is skipped.
\<close>

fun draft_loop ::
  "(string \<Rightarrow> py_error + pyval) \<Rightarrow> (pyval \<Rightarrow> bool) \<Rightarrow> (nat \<Rightarrow> py_error option) \<Rightarrow>
   (nat \<Rightarrow> nat \<Rightarrow> llm_outcome) \<Rightarrow> (nat \<Rightarrow> bool) \<Rightarrow> bool \<Rightarrow> nat \<Rightarrow> dict list \<Rightarrow> draft_summary \<Rightarrow> db \<Rightarrow>
   py_error option \<times> draft_summary \<times> db" where
  "draft_loop loads has_template prompt_exc llm fails dry_run i [] s d = (None, s, d)"
| "draft_loop loads has_template prompt_exc llm fails dry_run i (person # rest) s d =
     (case getitem person ''name'' of
        Inl e \<Rightarrow> (Some e, s, d)
      | Inr _ \<Rightarrow>
          if \<not> has_template (py_or (dict_get person ''for_tag'') (PStr []))
          then draft_loop loads has_template prompt_exc llm fails dry_run (Suc i) rest
                 (s\<lparr>skipped := skipped s + 1\<rparr>) d
          else
            (case draft_one loads (prompt_exc i) (llm i) fails dry_run person d of
               (None, d') \<Rightarrow>
                 draft_loop loads has_template prompt_exc llm fails dry_run (Suc i) rest
                   (s\<lparr>drafted := drafted s + 1\<rparr>) d'
             | (Some e, d') \<Rightarrow>
                 draft_loop loads has_template prompt_exc llm fails dry_run (Suc i) rest
                   (s\<lparr>draft_errors := draft_errors s + 1\<rparr>) d'))"

text \<open>\<open>main\<close> of draft.py: the exception that ended the run if any, the counters, the
  store afterwards and the exit code.\<close>

definition draft_main ::
  "(string \<Rightarrow> py_error + pyval) \<Rightarrow> (pyval \<Rightarrow> bool) \<Rightarrow> (nat \<Rightarrow> py_error option) \<Rightarrow>
   (nat \<Rightarrow> nat \<Rightarrow> llm_outcome) \<Rightarrow> (nat \<Rightarrow> bool) \<Rightarrow> string option \<Rightarrow> string option \<Rightarrow> int \<Rightarrow> bool \<Rightarrow>
   bool \<Rightarrow> db \<Rightarrow> py_error option \<times> draft_summary \<times> db \<times> nat" where
  "draft_main loads has_template prompt_exc llm fails person_id for_tag min_score dry_run force d =
     (let rows = get_people_to_draft person_id for_tag min_score d;
          s0 = \<lparr>drafted = 0, skipped = 0, draft_errors = 0\<rparr>
      in if rows = [] then (None, s0, d, 0)
         else
           (case (if \<not> force then drop_drafted (get_already_drafted_ids d) rows else Inr rows) of
              Inl e \<Rightarrow> (Some e, s0, d, 1)
            | Inr todo \<Rightarrow>
                (case draft_loop loads has_template prompt_exc llm fails dry_run 0 todo
                        (s0\<lparr>skipped := (if \<not> force then length rows - length todo else 0)\<rparr>) d of
                   (Some e, s, d') \<Rightarrow> (Some e, s, d', 1)
                 | (None, s, d') \<Rightarrow> (None, s, d', if 0 < draft_errors s then 1 else 0))))"

section \<open>Research-augmented drafting (research_draft.py)\<close>

text \<open>
  \<open>save_to_db\<close>: an outreach row of the person is updated in place, through the id of
  the first such row; only without one is a row inserted. Then the person's status is
  set. An exception leaves the function at once. The research notes are kept as the
  value they are.
\<close>

definition save_to_db ::
  "(nat \<Rightarrow> bool) \<Rightarrow> dict \<Rightarrow> pyval \<Rightarrow> pyval \<Rightarrow> string \<Rightarrow> bool \<Rightarrow> db \<Rightarrow> py_error option \<times> db" where
  "save_to_db fails person result research tone force d =
     (case getitem person ''id'' of
        Inl e \<Rightarrow> (Some e, d)
      | Inr pid \<Rightarrow>
     (case py_subscript result ''subject'' of
        Inl e \<Rightarrow> (Some e, d)
      | Inr subject \<Rightarrow>
     (case py_subscript result ''body'' of
        Inl e \<Rightarrow> (Some e, d)
      | Inr body \<Rightarrow>
          (case (case filter (\<lambda>row. dict_get row ''person_id'' = pid) (outreach d) of
                   row # _ \<Rightarrow>
                     (case getitem row ''id'' of
                        Inl e \<Rightarrow> (Some e, d)
                      | Inr oid \<Rightarrow>
                          store_write fails
                            (update_outreach
                               [(''subject'', subject), (''body'', body),
                                (''research_notes'', research), (''tone'', PStr tone),
                                (''status'', PStr ''drafted'')]
                               oid)
                            d)
                 | [] \<Rightarrow>
                     store_write fails
                       (insert_outreach
                          [(''person_id'', pid), (''channel'', PStr ''email''),
                           (''subject'', subject), (''body'', body),
                           (''research_notes'', research), (''tone'', PStr tone),
                           (''status'', PStr ''drafted'')])
                       d) of
             (Some e, d1) \<Rightarrow> (Some e, d1)
           | (None, d1) \<Rightarrow>
               store_write fails (update_people [(''status'', PStr ''outreach_drafted'')] pid) d1))))"

text \<open>
  \<open>main\<close> of research_draft.py for the person with the given id: the store afterwards
  and the exit code. \<open>research\<close> and \<open>email_out\<close> are the outcomes of the two generation
  phases (each a completion parsed as above, or the exception raised on the way).
\<close>

definition research_main ::
  "(pyval \<Rightarrow> bool) \<Rightarrow> (py_error + pyval) \<Rightarrow> (py_error + pyval) \<Rightarrow> (nat \<Rightarrow> bool) \<Rightarrow>
   string \<Rightarrow> string \<Rightarrow> string option \<Rightarrow> bool \<Rightarrow> bool \<Rightarrow> db \<Rightarrow> db \<times> nat" where
  "research_main has_template research email_out fails person_id tone for_tag dry_run force d =
     (case filter (\<lambda>row. dict_get row ''id'' = PStr person_id) (people d) of
        [] \<Rightarrow> (d, 1)
      | person # _ \<Rightarrow>
     (case (getitem person ''name'', getitem person ''id'') of
        (Inr _, Inr pid) \<Rightarrow>
          if \<not> force \<and> filter (\<lambda>row. dict_get row ''person_id'' = pid) (outreach d) \<noteq> []
          then (d, 0)
          else if \<not> has_template
                    (case given for_tag of
                       Some tag \<Rightarrow> PStr tag
                     | None \<Rightarrow> py_or (dict_get person ''for_tag'') (PStr []))
          then (d, 1)
          else
            (case (research, email_out) of
               (Inr notes, Inr eml) \<Rightarrow>
                 (case (py_subscript eml ''subject'', py_subscript eml ''body'') of
                    (Inr subject, Inr (PStr body)) \<Rightarrow>
                      if dry_run then (d, 0)
                      else
                        (case save_to_db fails person eml notes tone force d of
                           (None, d') \<Rightarrow> (d', 0)
                         | (Some e, d') \<Rightarrow> (d', 1))
                  | _ \<Rightarrow> (d, 1))
             | _ \<Rightarrow> (d, 1))
      | _ \<Rightarrow> (d, 1)))"

text \<open>The outreach rows of a person.\<close>

definition outreach_of :: "pyval \<Rightarrow> db \<Rightarrow> dict list" where
  "outreach_of pid d = filter (\<lambda>row. dict_get row ''person_id'' = pid) (outreach d)"

section \<open>Vocabulary of the retry contract\<close>

text \<open>A reply that signals rate limiting, and one that rejects the request as invalid.\<close>

definition rate_limited :: "post_outcome \<Rightarrow> bool" where
  "rate_limited p = (case p of Response status_code body \<Rightarrow> status_code = 429 | _ \<Rightarrow> False)"

definition validation_rejected :: "post_outcome \<Rightarrow> bool" where
  "validation_rejected p = (case p of Response status_code body \<Rightarrow> status_code = 422 | _ \<Rightarrow> False)"

text \<open>
  Any other failure, with the exception it raises: a request that raised, an error
  status other than 429 and 422, or a body that does not parse.
\<close>

definition other_failure :: "post_outcome \<Rightarrow> py_error option" where
  "other_failure p =
     (case p of
        Post_raises m \<Rightarrow> Some (RequestException m)
      | Response status_code body \<Rightarrow>
          if status_code = 429 \<or> status_code = 422 then None
          else if 400 \<le> status_code \<and> status_code < 600
          then Some (HTTPError status_code)
          else (case body of Inl m \<Rightarrow> Some (RequestException m) | Inr data \<Rightarrow> None))"

text \<open>The effects of \<open>k\<close> rate-limited attempts: each request, then a sleep of
  \<open>10 * 2 ^ attempt\<close> seconds.\<close>

definition backoff :: "nat \<Rightarrow> effect list" where
  "backoff k = concat (map (\<lambda>attempt. [Post attempt, Sleep (10 * 2 ^ attempt)]) [0 ..< k])"

definition requests_sent :: "effect list \<Rightarrow> nat" where
  "requests_sent eff = length (filter (\<lambda>e. case e of Post attempt \<Rightarrow> True | Sleep s \<Rightarrow> False) eff)"

text \<open>The status column of the people table.\<close>

definition statuses :: "db \<Rightarrow> pyval list" where
  "statuses d = map (\<lambda>row. dict_get row ''status'') (people d)"



text \<open>
  The staleness test on a row: never scored, or scored before the cutoff (the time
  stamps compared as ISO texts).
\<close>

definition due_for_scoring :: "string \<Rightarrow> dict \<Rightarrow> bool" where
  "due_for_scoring cutoff p =
     (\<not> truthy (dict_get p ''scored_at'') \<or>
      (case dict_get p ''scored_at'' of PStr scored_at \<Rightarrow> py_str_lt scored_at cutoff | _ \<Rightarrow> False))"

text \<open>The priority_score column of the people table.\<close>

definition priority_scores :: "db \<Rightarrow> pyval list" where
  "priority_scores d = map (\<lambda>row. dict_get row ''priority_score'') (people d)"

text \<open>The four keys that the scoring loop reads by subscript.\<close>

definition score_keys :: "string list" where
  "score_keys = [''total_score'', ''proximity_score'', ''relevance_score'', ''urgency_score'']"

section \<open>Concrete inputs\<close>

text \<open>A contact with the given first and last name and nothing else filled in.\<close>

definition conn :: "string \<Rightarrow> string \<Rightarrow> connection" where
  "conn f l = \<lparr>first_name = f, last_name = l, email = [], company = [], position = [],
               linkedin_url = [], connected_on = []\<rparr>"

text \<open>
  A discovered prospect with an email and no title, alone in the store, and a reply of
  the people-data API that offers another email and a title.
\<close>

definition ada_row :: dict where
  "ada_row = [(''id'', PStr ''p1''), (''name'', PStr ''Ada Lovelace''),
              (''email'', PStr ''ada@example.org''), (''status'', PStr ''discovered'')]"

definition ada_db :: db where
  "ada_db = \<lparr>people = [ada_row], outreach = [], enrichment_log = [], writes = 0\<rparr>"

definition apollo_ok :: "nat \<Rightarrow> post_outcome" where
  "apollo_ok attempt =
     Response 200 (Inr (PDict [(''person'',
       PDict [(''email'', PStr ''countess@example.com''), (''title'', PStr ''Countess'')])]))"

text \<open>A store that accepts every write.\<close>

definition no_failure :: "nat \<Rightarrow> bool" where
  "no_failure n = False"

text \<open>
  A prospect whose outreach is drafted already, alone in the store, and a people-data
  API that knows nobody.
\<close>

definition grace_row :: dict where
  "grace_row = [(''id'', PStr ''p2''), (''name'', PStr ''Grace Hopper''),
                (''status'', PStr ''outreach_drafted'')]"

definition grace_db :: db where
  "grace_db = \<lparr>people = [grace_row], outreach = [], enrichment_log = [], writes = 0\<rparr>"

definition no_match :: "nat \<Rightarrow> nat \<Rightarrow> post_outcome" where
  "no_match i attempt = Response 200 (Inr (PDict []))"




text \<open>
  A prospect still in status discovered that was scored an hour before the run of
  2026-11-04T10:00, whose cutoff is seven days earlier.
\<close>

definition fresh_row :: dict where
  "fresh_row = [(''id'', PStr ''p4''), (''name'', PStr ''Alan Turing''),
                (''status'', PStr ''discovered''),
                (''scored_at'', PStr ''2026-11-04T09:00:00+00:00'')]"

definition fresh_db :: db where
  "fresh_db = \<lparr>people = [fresh_row], outreach = [], enrichment_log = [], writes = 0\<rparr>"

definition cutoff_example :: string where
  "cutoff_example = ''2026-10-28T10:00:00+00:00''"

text \<open>
  Two completions, one whose scores keep the rubric and one whose scores break every
  bound; the values \<open>json.loads\<close> gives for their texts; and models that return them at
  the first attempt.
\<close>

definition good_text :: string where
  \<open>good_text =
     ''{"total_score": 60, "proximity_score": 20, "relevance_score": 25, "urgency_score": 15}''\<close>

definition good_result :: pyval where
  "good_result = PDict [(''total_score'', PInt 60), (''proximity_score'', PInt 20),
                        (''relevance_score'', PInt 25), (''urgency_score'', PInt 15)]"

definition wild_text :: string where
  \<open>wild_text =
     ''{"total_score": 500, "proximity_score": 1, "relevance_score": 1, "urgency_score": 1}''\<close>

definition wild_result :: pyval where
  "wild_result = PDict [(''total_score'', PInt 500), (''proximity_score'', PInt 1),
                        (''relevance_score'', PInt 1), (''urgency_score'', PInt 1)]"

text \<open>A drafted email as the model returns it, and its parsed value.\<close>

definition draft_text :: string where
  \<open>draft_text = ''{"subject": "Hello again", "body": "<p>Hi</p>"}''\<close>

definition draft_result :: pyval where
  "draft_result = PDict [(''subject'', PStr ''Hello again''), (''body'', PStr ''<p>Hi</p>'')]"

text \<open>
  The completion of the specification's scenario, cut off inside its second element,
  the repaired text and its parsed value.
\<close>

definition cut_text :: string where
  \<open>cut_text = ''[{"name":"A"},{"name":"B"''\<close>

definition repaired_text :: string where
  \<open>repaired_text = ''[{"name":"A"}]''\<close>

definition repaired_result :: pyval where
  "repaired_result = PList [PDict [(''name'', PStr ''A'')]]"

text \<open>A valid JSON object that holds an array, and its parsed value.\<close>

definition nested_text :: string where
  \<open>nested_text = ''{"a": [1, 2]}''\<close>

definition nested_result :: pyval where
  "nested_result = PDict [(''a'', PList [PInt 1, PInt 2])]"

text \<open>\<open>json.loads\<close> on the texts used below; every other text used below is not JSON.\<close>

definition loads_example :: "string \<Rightarrow> py_error + pyval" where
  "loads_example s =
     (if s = good_text then Inr good_result
      else if s = wild_text then Inr wild_result
      else if s = draft_text then Inr draft_result
      else if s = repaired_text then Inr repaired_result
      else if s = nested_text then Inr nested_result
      else Inl ValueError)"

definition good_llm :: "nat \<Rightarrow> llm_outcome" where
  "good_llm attempt = Completion good_text ''end_turn''"

definition wild_llm :: "nat \<Rightarrow> llm_outcome" where
  "wild_llm attempt = Completion wild_text ''end_turn''"

definition now_example :: string where
  "now_example = ''2026-11-04T10:00:00+00:00''"

definition cut_llm :: "nat \<Rightarrow> llm_outcome" where
  "cut_llm attempt = Completion cut_text ''max_tokens''"

definition nested_llm :: "nat \<Rightarrow> llm_outcome" where
  "nested_llm attempt = Completion nested_text ''end_turn''"

text \<open>A valid array with white space around it, and a model that returns it.\<close>

definition padded_text :: string where
  \<open>padded_text = ''  [{"name":"A"}]  ''\<close>

definition padded_llm :: "nat \<Rightarrow> llm_outcome" where
  "padded_llm attempt = Completion padded_text ''end_turn''"

text \<open>A store that refuses every write.\<close>

definition every_failure :: "nat \<Rightarrow> bool" where
  "every_failure n = True"

text \<open>
  An enriched, scored prospect that already has one outreach row; templates exist for
  every tag, the prompt is assembled without an exception, and the model returns the
  draft above at the first attempt.
\<close>

definition mary_row :: dict where
  "mary_row = [(''id'', PStr ''p5''), (''name'', PStr ''Mary Somerville''),
               (''for_tag'', PStr ''acceler''), (''status'', PStr ''enriched''),
               (''priority_score'', PInt 80)]"

definition mary_outreach :: dict where
  "mary_outreach = [(''id'', PStr ''o1''), (''person_id'', PStr ''p5''),
                    (''channel'', PStr ''email''), (''subject'', PStr ''Hello''),
                    (''body'', PStr ''<p>First draft</p>''), (''status'', PStr ''drafted'')]"

definition drafted_db :: db where
  "drafted_db = \<lparr>people = [mary_row], outreach = [mary_outreach], enrichment_log = [],
                  writes = 0\<rparr>"

definition any_template :: "pyval \<Rightarrow> bool" where
  "any_template tag = True"

definition prompt_fine :: "nat \<Rightarrow> py_error option" where
  "prompt_fine i = None"

definition draft_llm :: "nat \<Rightarrow> nat \<Rightarrow> llm_outcome" where
  "draft_llm i attempt = Completion draft_text ''end_turn''"

text \<open>The store after a run of draft.py.\<close>

definition draft_store :: "py_error option \<times> draft_summary \<times> db \<times> nat \<Rightarrow> db" where
  "draft_store run = fst (snd (snd run))"

section \<open>Identity matcher: first match wins, exact before prefix\<close>

lemma exact_loop_find:
  "exact_loop f l cs =
     List.find (\<lambda>c. py_lower (first_name c) = f \<and> py_lower (last_name c) = l) cs"
  by (induction cs) simp_all

lemma prefix_loop_find:
  "prefix_loop f p cs =
     List.find (\<lambda>c. py_lower (first_name c) = f \<and> py_startswith (py_lower (last_name c)) p) cs"
  by (induction cs) simp_all

lemma list_all_take_nth:
  "i \<le> length xs \<Longrightarrow> list_all Q (take i xs) \<longleftrightarrow> (\<forall>j<i. Q (xs ! j))"
  by (auto simp: list_all_length)

lemma find_first_at:
  "List.find P xs = Some x \<longleftrightarrow> (\<exists>i. first_at P xs i \<and> xs ! i = x)"
  unfolding find_Some_iff first_at_def
  by (metis (no_types, lifting) list_all_take_nth less_imp_le_nat)

lemma find_None_list_ex: "List.find P xs = None \<longleftrightarrow> \<not> list_ex P xs"
  by (auto simp: find_None_iff list_ex_iff)

lemma find_linkedin_match_find:
  "find_linkedin_match f l cs =
     (case List.find (exact_match f l) cs of
        Some c \<Rightarrow> Some c
      | None \<Rightarrow> if 3 \<le> length (query_key l) then List.find (prefix_match f l) cs else None)"
  unfolding find_linkedin_match_def exact_loop_find prefix_loop_find exact_match_def
    prefix_match_def query_key_def Let_def
  by simp

text \<open>
  C6, as the code has it. The query's names are put in lower case and the white space
  around them is removed; a candidate's names are put in lower case only. The matcher
  returns the first candidate, in input order, whose first and last names equal the
  query's in these forms. Only when no candidate matches exactly and the query's last
  name, trimmed, has at least 3 characters does it return the first candidate whose
  first name is equal and whose last name starts with the first 3 characters of the
  query's trimmed last name. In every other case it returns none. So an exact match
  anywhere in the list is preferred to a prefix match, and the result is a function of
  the query and the list alone.
\<close>

theorem find_linkedin_match_first_wins:
  "(list_ex (exact_match f l) cs \<longrightarrow>
      (\<exists>i. first_at (exact_match f l) cs i \<and> find_linkedin_match f l cs = Some (cs ! i))) \<and>
   (\<not> list_ex (exact_match f l) cs \<and> 3 \<le> length (query_key l) \<and>
    list_ex (prefix_match f l) cs \<longrightarrow>
      (\<exists>i. first_at (prefix_match f l) cs i \<and> find_linkedin_match f l cs = Some (cs ! i))) \<and>
   (\<not> list_ex (exact_match f l) cs \<and>
    (length (query_key l) < 3 \<or> \<not> list_ex (prefix_match f l) cs) \<longrightarrow>
      find_linkedin_match f l cs = None)"
proof (intro conjI impI)
  assume "list_ex (exact_match f l) cs"
  then obtain c where c: "List.find (exact_match f l) cs = Some c"
    using find_None_list_ex[of "exact_match f l" cs]
    by (cases "List.find (exact_match f l) cs") auto
  then obtain i where "first_at (exact_match f l) cs i" "cs ! i = c"
    using find_first_at by metis
  with c show "\<exists>i. first_at (exact_match f l) cs i \<and> find_linkedin_match f l cs = Some (cs ! i)"
    by (auto simp: find_linkedin_match_find)
next
  assume a: "\<not> list_ex (exact_match f l) cs \<and> 3 \<le> length (query_key l) \<and>
             list_ex (prefix_match f l) cs"
  then have n: "List.find (exact_match f l) cs = None"
    by (simp add: find_None_list_ex)
  from a obtain c where c: "List.find (prefix_match f l) cs = Some c"
    using find_None_list_ex[of "prefix_match f l" cs]
    by (cases "List.find (prefix_match f l) cs") auto
  then obtain i where "first_at (prefix_match f l) cs i" "cs ! i = c"
    using find_first_at by metis
  with c n a
  show "\<exists>i. first_at (prefix_match f l) cs i \<and> find_linkedin_match f l cs = Some (cs ! i)"
    by (auto simp: find_linkedin_match_find)
next
  assume a: "\<not> list_ex (exact_match f l) cs \<and>
             (length (query_key l) < 3 \<or> \<not> list_ex (prefix_match f l) cs)"
  then have n: "List.find (exact_match f l) cs = None"
    by (simp add: find_None_list_ex)
  from a have "3 \<le> length (query_key l) \<Longrightarrow> List.find (prefix_match f l) cs = None"
    by (auto simp: find_None_list_ex)
  with n show "find_linkedin_match f l cs = None"
    by (auto simp: find_linkedin_match_find)
qed

text \<open>
  At a list whose first entry matches by prefix only and whose second matches exactly,
  the second is returned.
\<close>

theorem find_linkedin_match_first_wins_witness:
  "list_ex (exact_match '' Anne'' ''Smith '') [conn ''Anne'' ''Smithson'', conn ''ANNE'' ''SMITH''] \<and>
   list_ex (prefix_match '' Anne'' ''Smith '') [conn ''Anne'' ''Smithson'', conn ''ANNE'' ''SMITH''] \<and>
   find_linkedin_match '' Anne'' ''Smith '' [conn ''Anne'' ''Smithson'', conn ''ANNE'' ''SMITH'']
     = Some (conn ''ANNE'' ''SMITH'')"
proof -
  let ?cs = "[conn ''Anne'' ''Smithson'', conn ''ANNE'' ''SMITH'']"
  have a: "list_ex (exact_match '' Anne'' ''Smith '') ?cs"
    by code_simp
  have b: "list_ex (prefix_match '' Anne'' ''Smith '') ?cs"
    by code_simp
  have n0: "\<not> exact_match '' Anne'' ''Smith '' (conn ''Anne'' ''Smithson'')"
    by code_simp
  from find_linkedin_match_first_wins[of "'' Anne''" "''Smith ''" ?cs] a
  obtain i where i: "first_at (exact_match '' Anne'' ''Smith '') ?cs i"
    and r: "find_linkedin_match '' Anne'' ''Smith '' ?cs = Some (?cs ! i)"
    by blast
  from i n0 have "i = 1"
    by (cases i) (auto simp: first_at_def)
  with r a b show ?thesis
    by simp
qed

text \<open>
  C6 as stated fails, because the code trims the query. For the query Wei, \<open>Li \<close>
  (with a space at its end) and the one candidate Wei, Li Na, the query's last name has
  3 characters and the candidate's last name starts with them, so the matcher of the
  specification returns the candidate; the code measures the trimmed name, finds 2
  characters and returns none. For the query \<open> Anne\<close>, \<open>Smith \<close> and the candidate Anne,
  Smith the names differ by the white space, so the matcher of the specification
  returns none; the code returns the candidate.
\<close>

theorem identity_match_trims_query:
  "find_linkedin_match ''Wei'' ''Li '' [conn ''Wei'' ''Li Na''] = None \<and>
   spec_identity_match ''Wei'' ''Li '' [conn ''Wei'' ''Li Na''] = Some (conn ''Wei'' ''Li Na'') \<and>
   find_linkedin_match '' Anne'' ''Smith '' [conn ''Anne'' ''Smith''] = Some (conn ''Anne'' ''Smith'') \<and>
   spec_identity_match '' Anne'' ''Smith '' [conn ''Anne'' ''Smith''] = None"
  by code_simp

section \<open>People-data API client: the retry contract\<close>

lemma attempt_loop_rate_limited:
  "\<forall>i\<in>set as. rate_limited (post i) \<Longrightarrow>
   attempt_loop post (as @ rest) eff =
   attempt_loop post rest (eff @ concat (map (\<lambda>attempt. [Post attempt, Sleep (10 * 2 ^ attempt)]) as))"
proof (induction as arbitrary: eff)
  case Nil
  then show ?case by simp
next
  case (Cons a as)
  from Cons.prems obtain b where "post a = Response 429 b"
    by (auto simp: rate_limited_def split: post_outcome.splits)
  with Cons show ?case by simp
qed

lemma upt3_split: "k < 3 \<Longrightarrow> [0 ..< 3] = [0 ..< k] @ k # [Suc k ..< 3]"
  by (metis less_imp_le_nat upt_add_eq_append upt_conv_Cons zero_le le_add_diff_inverse)

lemma attempt_loop_exhausted:
  assumes "\<forall>i<3. rate_limited (post i)"
  shows "attempt_loop post [0 ..< 3] [] =
           (Inl (RuntimeError ''Apollo API rate limit exceeded after 3 retries''), backoff 3)"
  using attempt_loop_rate_limited[of "[0 ..< 3]" post "[]" "[]"] assms
  by (simp add: backoff_def)

lemma attempt_loop_stops:
  assumes "k < 3" "\<forall>i<k. rate_limited (post i)" "\<not> rate_limited (post k)"
  shows "attempt_loop post [0 ..< 3] [] =
           (case post k of
              Post_raises m \<Rightarrow> Inl (RequestException m)
            | Response c body \<Rightarrow>
                if 400 \<le> c \<and> c < 600
                then (if c = 422 then Inr None else Inl (HTTPError c))
                else (case body of Inl m \<Rightarrow> Inl (RequestException m) | Inr data \<Rightarrow> Inr (Some data)),
            backoff k @ [Post k])"
proof -
  have "attempt_loop post [0 ..< 3] [] = attempt_loop post (k # [Suc k ..< 3]) (backoff k)"
    using attempt_loop_rate_limited[of "[0 ..< k]" post "k # [Suc k ..< 3]" "[]"] assms(1,2)
    by (simp add: upt3_split[symmetric] backoff_def)
  with assms(3) show ?thesis
    by (auto simp: rate_limited_def split: post_outcome.splits sum.splits)
qed

lemma requests_sent_backoff: "requests_sent (backoff k) = k"
  by (induction k) (simp_all add: backoff_def requests_sent_def)

lemma requests_sent_append: "requests_sent (a @ b) = requests_sent a + requests_sent b"
  by (simp add: requests_sent_def)

lemma first_not_limited:
  "\<not> (\<forall>i<n. P i) \<Longrightarrow> \<exists>k<n. (\<forall>i<k. P i) \<and> \<not> P (k::nat)"
proof (induction n)
  case 0
  then show ?case by simp
next
  case (Suc n)
  show ?case
  proof (cases "\<forall>i<n. P i")
    case True
    with Suc.prems have "\<not> P n" using less_Suc_eq by auto
    with True show ?thesis by auto
  next
    case False
    with Suc.IH obtain k where "k < n" "\<forall>i<k. P i" "\<not> P k" by auto
    then show ?thesis by (intro exI[of _ k]) auto
  qed
qed

lemma requests_sent_Post: "requests_sent [Post k] = 1"
  by (simp add: requests_sent_def)

lemma attempt_loop_at_most_3: "requests_sent (snd (attempt_loop post [0 ..< 3] [])) \<le> 3"
proof (cases "\<forall>i<3. rate_limited (post i)")
  case True
  then show ?thesis by (simp add: attempt_loop_exhausted requests_sent_backoff)
next
  case False
  then obtain k where "k < 3" "\<forall>i<k. rate_limited (post i)" "\<not> rate_limited (post k)"
    using first_not_limited[of 3 "\<lambda>i. rate_limited (post i)"] by auto
  then show ?thesis
    by (simp add: attempt_loop_stops requests_sent_append requests_sent_backoff requests_sent_Post)
qed

lemma requests_sent_Nil: "requests_sent [] = 0"
  by (simp add: requests_sent_def)

text \<open>
  C9. For every call of the people-data API with a key configured and a non-empty
  payload: at most 3 requests are sent; a reply with status 429 at attempt \<open>i\<close> is
  followed by a sleep of \<open>10 * 2 ^ i\<close> seconds and the next attempt, the attempts
  sharing one counter; three such replies end in the RuntimeError "rate limit exceeded
  after 3 retries"; a reply with status 422 returns None without another request; any
  other failure is raised at once without another request; and a reply that parses is
  the result.
\<close>

theorem match_person_retry_contract:
  assumes key: "api_key \<noteq> []"
    and payload: "truthy fname \<or> truthy lname \<or> truthy org \<or> truthy li \<or> truthy em"
  shows
    "requests_sent (snd (match_person api_key post fname lname org li em)) \<le> 3 \<and>
     ((\<forall>i<3. rate_limited (post i)) \<longrightarrow>
        match_person api_key post fname lname org li em =
          (Inl (RuntimeError ''Apollo API rate limit exceeded after 3 retries''), backoff 3)) \<and>
     (\<forall>k<3. (\<forall>i<k. rate_limited (post i)) \<and> validation_rejected (post k) \<longrightarrow>
        match_person api_key post fname lname org li em = (Inr None, backoff k @ [Post k])) \<and>
     (\<forall>k<3. \<forall>e. (\<forall>i<k. rate_limited (post i)) \<and> other_failure (post k) = Some e \<longrightarrow>
        match_person api_key post fname lname org li em = (Inl e, backoff k @ [Post k])) \<and>
     (\<forall>k<3. \<forall>c data. (\<forall>i<k. rate_limited (post i)) \<and> post k = Response c (Inr data) \<and>
        (c < 400 \<or> 600 \<le> c) \<longrightarrow>
        match_person api_key post fname lname org li em =
          (normalize_person data, backoff k @ [Post k]))"
proof -
  have mp: "match_person api_key post fname lname org li em =
      (case attempt_loop post [0 ..< 3] [] of
         (Inl e, eff) \<Rightarrow> (Inl e, eff)
       | (Inr None, eff) \<Rightarrow> (Inr None, eff)
       | (Inr (Some data), eff) \<Rightarrow> (normalize_person data, eff))"
    using key payload unfolding match_person_def by auto
  have snd_mp: "snd (match_person api_key post fname lname org li em) =
      snd (attempt_loop post [0 ..< 3] [])"
    unfolding mp by (auto split: prod.splits sum.splits option.splits)
  have c1: "requests_sent (snd (match_person api_key post fname lname org li em)) \<le> 3"
    unfolding snd_mp by (rule attempt_loop_at_most_3)
  have c2: "match_person api_key post fname lname org li em =
          (Inl (RuntimeError ''Apollo API rate limit exceeded after 3 retries''), backoff 3)"
    if "\<forall>i<3. rate_limited (post i)"
    unfolding mp using attempt_loop_exhausted[OF that] by simp
  have c3: "match_person api_key post fname lname org li em = (Inr None, backoff k @ [Post k])"
    if "k < 3" "\<forall>i<k. rate_limited (post i)" "validation_rejected (post k)" for k
  proof -
    from that(3) have "\<not> rate_limited (post k)"
      by (auto simp: rate_limited_def validation_rejected_def split: post_outcome.splits)
    from attempt_loop_stops[OF that(1,2) this] that(3) show ?thesis
      unfolding mp by (auto simp: validation_rejected_def split: post_outcome.splits)
  qed
  have c4: "match_person api_key post fname lname org li em = (Inl e, backoff k @ [Post k])"
    if "k < 3" "\<forall>i<k. rate_limited (post i)" "other_failure (post k) = Some e" for k e
  proof -
    from that(3) have "\<not> rate_limited (post k)"
      by (auto simp: rate_limited_def other_failure_def split: post_outcome.splits if_splits)
    from attempt_loop_stops[OF that(1,2) this] that(3) show ?thesis
      unfolding mp
      by (auto simp: other_failure_def split: post_outcome.splits if_splits sum.splits)
  qed
  have c5: "match_person api_key post fname lname org li em =
          (normalize_person data, backoff k @ [Post k])"
    if "k < 3" "\<forall>i<k. rate_limited (post i)" "post k = Response c (Inr data)" "c < 400 \<or> 600 \<le> c"
    for k c data
  proof -
    from that(3,4) have "\<not> rate_limited (post k)"
      by (auto simp: rate_limited_def)
    from attempt_loop_stops[OF that(1,2) this] that(3,4) show ?thesis
      unfolding mp by auto
  qed
  from c1 c2 c3 c4 c5 show ?thesis by blast
qed

text \<open>
  Three rate-limited replies give the sleeps 10, 20 and 40 and the RuntimeError; one
  rate-limited reply followed by a 422 gives None after two requests.
\<close>

theorem match_person_retry_contract_witness:
  "match_person ''key'' (\<lambda>i. Response 429 (Inl [])) (PStr ''Ada'') (PStr ''Lovelace'') (PStr [])
     (PStr []) (PStr []) =
     (Inl (RuntimeError ''Apollo API rate limit exceeded after 3 retries''),
      [Post 0, Sleep 10, Post 1, Sleep 20, Post 2, Sleep 40]) \<and>
   match_person ''key'' (\<lambda>i. if i = 0 then Response 429 (Inl []) else Response 422 (Inl []))
     (PStr ''Ada'') (PStr ''Lovelace'') (PStr []) (PStr []) (PStr []) =
     (Inr None, [Post 0, Sleep 10, Post 1])"
proof -
  have k: "''key'' \<noteq> []" and p: "truthy (PStr ''Ada'') \<or> truthy (PStr ''Lovelace'') \<or> truthy (PStr []) \<or> truthy (PStr []) \<or> truthy (PStr [])"
    by simp_all
  have b3: "backoff 3 = [Post 0, Sleep 10, Post 1, Sleep 20, Post 2, Sleep 40]"
    by code_simp
  have b1: "backoff 1 @ [Post 1] = [Post 0, Sleep 10, Post 1]"
    by code_simp
  note t1 = match_person_retry_contract[OF k p, of "\<lambda>i. Response 429 (Inl [])"]
  note t2 = match_person_retry_contract[OF k p,
      of "\<lambda>i. if i = 0 then Response 429 (Inl []) else Response 422 (Inl [])"]
  have r1: "\<forall>i<3. rate_limited ((\<lambda>i::nat. Response 429 (Inl [])) i)"
    by (simp add: rate_limited_def)
  have r2: "(\<forall>i<1. rate_limited ((\<lambda>i::nat. if i = 0 then Response 429 (Inl []) else Response 422 (Inl [])) i)) \<and>
            validation_rejected ((\<lambda>i::nat. if i = 0 then Response 429 (Inl []) else Response 422 (Inl [])) 1)"
    by (auto simp: rate_limited_def validation_rejected_def)
  from t1 r1 have "match_person ''key'' (\<lambda>i. Response 429 (Inl [])) (PStr ''Ada'') (PStr ''Lovelace'') (PStr [])
     (PStr []) (PStr []) = (Inl (RuntimeError ''Apollo API rate limit exceeded after 3 retries''), backoff 3)"
    by blast
  moreover from t2 r2 have "match_person ''key'' (\<lambda>i. if i = 0 then Response 429 (Inl []) else Response 422 (Inl []))
     (PStr ''Ada'') (PStr ''Lovelace'') (PStr []) (PStr []) (PStr []) = (Inr None, backoff 1 @ [Post 1])"
    by (simp del: One_nat_def)
  ultimately show ?thesis
    unfolding b3 b1 by simp
qed

section \<open>Enrichment: fields that are filled stay as they are\<close>

lemma map_of_set_if:
  "map_of (set_if c k' v u) k = (if c \<and> k = k' then Some v else map_of u k)"
  by (simp add: set_if_def update_conv')

lemma dict_get_merge:
  "dict_get (AList.merge row u) k = (case map_of u k of Some v \<Rightarrow> v | None \<Rightarrow> dict_get row k)"
  by (simp add: dict_get_def dict_get_default_def merge_conv' map_add_def split: option.splits)

lemma update_rows_column:
  "map_of u k = None \<Longrightarrow>
   map (\<lambda>row. dict_get row k) (update_rows u pid rows) = map (\<lambda>row. dict_get row k) rows"
  by (induction rows) (simp_all add: update_rows_def dict_get_merge)

lemma people_log_enrichment: "people (log_enrichment fails pid src r e dry d) = people d"
  by (simp add: log_enrichment_def store_write_def insert_log_def Let_def)

lemma set_int_if_given_keeps:
  "set_int_if_given k' v u = Inr u' \<Longrightarrow> k \<noteq> k' \<Longrightarrow> map_of u' k = map_of u k"
  by (auto simp: set_int_if_given_def update_conv' split: if_splits sum.splits)

lemma apollo_fill_keeps:
  assumes "k \<in> {''email'', ''linkedin'', ''title''}" "truthy (dict_get person k)"
  shows "map_of (snd (apollo_fill person ad)) k = None"
proof -
  define u5 where "u5 =
     set_if (dict_get ad ''org_employee_count'' \<noteq> PNone)
       ''org_employee_count'' (dict_get ad ''org_employee_count'')
       (set_if (truthy (dict_get ad ''seniority'')) ''seniority'' (dict_get ad ''seniority'')
         (set_if (truthy (dict_get ad ''title'') \<and> \<not> truthy (dict_get person ''title''))
            ''title'' (dict_get ad ''title'')
            (set_if (truthy (dict_get ad ''linkedin_url'') \<and> \<not> truthy (dict_get person ''linkedin''))
               ''linkedin'' (dict_get ad ''linkedin_url'')
               (set_if (truthy (dict_get ad ''email'') \<and> \<not> truthy (dict_get person ''email''))
                  ''email'' (dict_get ad ''email'') []))))"
  have k5: "map_of u5 k = None"
    using assms unfolding u5_def by (auto simp: map_of_set_if)
  have kne: "k \<noteq> ''org_revenue''" "k \<noteq> ''org_total_funding''" "k \<noteq> ''org_industry''"
    "k \<noteq> ''apollo_data''"
    using assms(1) by auto
  have "map_of (snd (apollo_fill person ad)) k = None"
    unfolding apollo_fill_def Let_def u5_def[symmetric]
    using k5 kne
    by (auto simp: map_of_set_if update_conv' set_int_if_given_keeps split: sum.splits)
  then show ?thesis .
qed

lemma linkedin_fill_keeps:
  assumes "k \<in> {''email'', ''linkedin'', ''title''}" "truthy (dict_get person k)"
    "map_of u k = None"
  shows "map_of (snd (linkedin_fill person m u)) k = None"
proof -
  from assms(1) consider "k = ''email''" | "k = ''linkedin''" | "k = ''title''"
    by auto
  then show ?thesis
  proof cases
    case 1
    with assms(2,3) show ?thesis
      unfolding linkedin_fill_def Let_def
      by (simp add: map_of_set_if update_conv' split: sum.splits option.splits)
  next
    case 2
    with assms(2,3) show ?thesis
      unfolding linkedin_fill_def Let_def
      by (simp add: map_of_set_if update_conv' split: sum.splits option.splits)
  next
    case 3
    with assms(2,3) show ?thesis
      unfolding linkedin_fill_def Let_def
      by (simp add: map_of_set_if update_conv' split: sum.splits option.splits)
  qed
qed

lemma apollo_step_keeps:
  assumes "k \<in> {''email'', ''linkedin'', ''title''}" "truthy (dict_get person k)"
  shows "map_of (snd (snd (snd (apollo_step api_key post person f l)))) k = None"
proof -
  have "map_of (snd (apollo_fill person ad)) k = None" for ad
    by (rule apollo_fill_keeps[OF assms])
  then have "apollo_fill person ad = (e, u) \<Longrightarrow> map_of u k = None" for ad e u
    by (metis snd_conv)
  then show ?thesis
    unfolding apollo_step_def
    by (simp split: sum.splits option.splits prod.splits)
qed

lemma linkedin_step_keeps:
  assumes "k \<in> {''email'', ''linkedin'', ''title''}" "truthy (dict_get person k)"
    "map_of u k = None"
  shows "map_of (snd (snd (snd (linkedin_step person f l cs u)))) k = None"
proof -
  have "map_of (snd (linkedin_fill person m u)) k = None" for m
    by (rule linkedin_fill_keeps[OF assms])
  then have "linkedin_fill person m u = (e, u') \<Longrightarrow> map_of u' k = None" for m e u'
    by (metis snd_conv)
  with assms(3) show ?thesis
    unfolding linkedin_step_def
    by (simp split: sum.splits option.splits prod.splits)
qed

lemma people_store_write_update:
  "people (snd (store_write fails (update_people u pid) d)) =
     (if fails (writes d) then people d else update_rows u pid (people d))"
  by (simp add: store_write_def Let_def update_people_def)

lemma update_step_people:
  "people (snd (update_step fails pid u dry err d)) =
     (if dry \<or> fails (writes d) then people d
      else update_rows
             (if u \<noteq> [] then AList.update ''status'' (PStr ''enriched'') u
              else [(''status'', PStr ''enriched'')]) pid (people d))"
  unfolding update_step_def
  using people_store_write_update[of fails _ pid d]
  by (auto split: prod.splits option.splits) (metis snd_conv)+

lemma update_step_column:
  assumes "k \<in> {''email'', ''linkedin'', ''title''}" "map_of u k = None"
  shows "map (\<lambda>row. dict_get row k) (people (snd (update_step fails pid u dry err d))) =
         map (\<lambda>row. dict_get row k) (people d)"
proof -
  have a: "map_of (AList.update ''status'' (PStr ''enriched'') u) k = None"
    using assms by (auto simp: update_conv')
  have b: "map_of [(''status'', PStr ''enriched'')] k = None"
    using assms by auto
  show ?thesis
    unfolding update_step_people
    using update_rows_column[OF a] update_rows_column[OF b] by simp
qed


text \<open>
  C2. For every prospect and every enrichment pass: when the prospect's email, linkedin
  or title is non-empty before the pass, the pass leaves that field as it is in every
  row of the people table, the prospect's own row among them; it is neither emptied nor
  replaced by another value.
\<close>

theorem enrich_person_fill_blanks_only:
  assumes run: "enrich_person api_key post fails person connections dry_run d = Inr (res, d')"
    and k: "k \<in> {''email'', ''linkedin'', ''title''}"
    and filled: "truthy (dict_get person k)"
  shows "map (\<lambda>row. dict_get row k) (people d') = map (\<lambda>row. dict_get row k) (people d)"
proof -
  from run obtain pid name where pid: "getitem person ''id'' = Inr pid"
    and name: "getitem person ''name'' = Inr (PStr name)"
    unfolding enrich_person_def by (auto split: sum.splits pyval.splits)
  define fname where "fname = fst (name_parts name)"
  define lname where "lname = snd (name_parts name)"
  define a where "a = apollo_step api_key post person fname lname"
  define u1 where "u1 = snd (snd (snd a))"
  define d1 where "d1 = log_enrichment fails pid ''apollo'' (fst a) (fst (snd (snd a))) dry_run d"
  define b where "b = linkedin_step person fname lname connections u1"
  define u2 where "u2 = snd (snd (snd b))"
  define d2 where
    "d2 = log_enrichment fails pid ''linkedin_csv'' (fst b) (fst (snd (snd b))) dry_run d1"
  have d': "d' = snd (update_step fails pid u2 dry_run (fst (snd (snd a))) d2)"
    using run pid name
    unfolding enrich_person_def fname_def lname_def a_def u1_def d1_def b_def
      u2_def d2_def
    by (simp add: Let_def case_prod_beta)
  have "map_of u1 k = None"
    unfolding u1_def a_def by (rule apollo_step_keeps[OF k filled])
  then have "map_of u2 k = None"
    unfolding u2_def b_def by (rule linkedin_step_keeps[OF k filled])
  from update_step_column[OF k this]
  show ?thesis
    unfolding d' d2_def d1_def by (simp add: people_log_enrichment)
qed


text \<open>
  A prospect with an email and no title, and a reply that offers both: the email stays,
  the title is filled in.
\<close>

theorem enrich_person_fill_blanks_only_witness:
  "truthy (dict_get ada_row ''email'') \<and>
   (\<exists>res d'. enrich_person ''key'' apollo_ok no_failure ada_row None False ada_db = Inr (res, d') \<and>
      map (\<lambda>row. dict_get row ''email'') (people d') = [PStr ''ada@example.org''] \<and>
      map (\<lambda>row. dict_get row ''title'') (people d') = [PStr ''Countess''])"
proof -
  define r where "r = enrich_person ''key'' apollo_ok no_failure ada_row None False ada_db"
  have ok: "(case r of Inl e \<Rightarrow> False | Inr x \<Rightarrow> True)"
    unfolding r_def by code_simp
  then obtain res d' where run: "r = Inr (res, d')"
    by (cases r) auto
  have filled: "truthy (dict_get ada_row ''email'')"
    by code_simp
  have title: "map (\<lambda>row. dict_get row ''title'') (people (snd (projr r))) = [PStr ''Countess'']"
    unfolding r_def by code_simp
  have before: "map (\<lambda>row. dict_get row ''email'') (people ada_db) = [PStr ''ada@example.org'']"
    by code_simp
  have "map (\<lambda>row. dict_get row ''email'') (people d') =
        map (\<lambda>row. dict_get row ''email'') (people ada_db)"
    by (rule enrich_person_fill_blanks_only[OF run[unfolded r_def] _ filled]) simp
  with before title run filled show ?thesis
    unfolding r_def[symmetric] by auto
qed

section \<open>Enrichment: the status it writes\<close>

lemma update_rows_status:
  assumes "map_of u ''status'' = Some s"
  shows "map (\<lambda>row. dict_get row ''status'') (update_rows u pid rows) =
         map (\<lambda>row. if dict_get row ''id'' = pid then s else dict_get row ''status'') rows"
  using assms by (induction rows) (simp_all add: update_rows_def dict_get_merge)

lemma enrich_person_eq:
  assumes "getitem person ''id'' = Inr pid" "getitem person ''name'' = Inr (PStr name)"
  shows "enrich_person api_key post fails person connections dry_run d =
     (let fl = name_parts name;
          a = apollo_step api_key post person (fst fl) (snd fl);
          d1 = log_enrichment fails pid ''apollo'' (fst a) (fst (snd (snd a))) dry_run d;
          b = linkedin_step person (fst fl) (snd fl) connections (snd (snd (snd a)));
          d2 = log_enrichment fails pid ''linkedin_csv'' (fst b) (fst (snd (snd b))) dry_run d1;
          w = update_step fails pid (snd (snd (snd b))) dry_run (fst (snd (snd a))) d2
      in Inr (\<lparr>r_person_id = pid, r_name = PStr name, r_apollo = fst (snd a),
                r_linkedin = fst (snd b), r_error = fst w\<rparr>, snd w))"
  using assms unfolding enrich_person_def
  by (simp add: Let_def case_prod_beta)

lemma enrich_person_cases:
  "(\<exists>e. enrich_person api_key post fails person connections dry_run d = Inl e) \<or>
   (\<exists>pid name. getitem person ''id'' = Inr pid \<and> getitem person ''name'' = Inr (PStr name))"
  unfolding enrich_person_def by (auto split: sum.splits pyval.splits)

lemma writes_log_enrichment:
  "writes (log_enrichment fails p src r e dry x) = (if dry then writes x else Suc (writes x))"
  by (simp add: log_enrichment_def store_write_def insert_log_def Let_def)

lemma statuses_update_step:
  assumes "\<not> dry" "\<not> fails (writes d)"
  shows "statuses (snd (update_step fails pid u dry err d)) =
         map (\<lambda>row. if dict_get row ''id'' = pid then PStr ''enriched'' else dict_get row ''status'')
           (people d)"
proof -
  have a: "map_of (AList.update ''status'' (PStr ''enriched'') u) ''status'' = Some (PStr ''enriched'')"
    by (simp add: update_conv')
  have b: "map_of [(''status'', PStr ''enriched'')] ''status'' = Some (PStr ''enriched'')"
    by simp
  show ?thesis
    unfolding statuses_def update_step_people
    using assms update_rows_status[OF a] update_rows_status[OF b] by simp
qed

lemma get_people_default_status:
  assumes "person \<in> set (get_people None tag d)"
  shows "dict_get person ''status'' = PStr ''discovered''"
  using assms unfolding get_people_def given_def
  by (auto split: option.splits if_splits)

lemma update_step_dry: "dry \<Longrightarrow> snd (update_step fails pid u dry err d) = d"
  by (simp add: update_step_def)

lemma log_enrichment_dry: "dry \<Longrightarrow> log_enrichment fails pid src r e dry d = d"
  by (simp add: log_enrichment_def)

text \<open>
  C5, as the code has it. A pass over a prospect makes three write requests: two
  entries of the enrichment log, then the prospect's row. Outside a dry run, with the
  store accepting the write of the row, the pass sets the status of the prospect's row
  to enriched, whatever the status was, and leaves the status of every other row alone;
  with the store refusing that write the people table stays as it was. A dry run leaves
  the whole store as it was. A prospect selected by the default filter is in status
  discovered, so for it the status written is no regression.
\<close>

theorem enrich_person_writes_enriched:
  assumes run: "enrich_person api_key post fails person connections dry_run d = Inr (res, d')"
  shows "(\<not> dry_run \<and> \<not> fails (writes d + 2) \<longrightarrow>
            statuses d' =
              map (\<lambda>row. if dict_get row ''id'' = r_person_id res then PStr ''enriched''
                         else dict_get row ''status'') (people d)) \<and>
         (\<not> dry_run \<and> fails (writes d + 2) \<longrightarrow> people d' = people d) \<and>
         (dry_run \<longrightarrow> d' = d) \<and>
         (\<forall>tag. person \<in> set (get_people None tag d) \<longrightarrow>
            status_rank (dict_get person ''status'') \<le> status_rank (PStr ''enriched''))"
proof -
  from run enrich_person_cases[of api_key post fails person connections dry_run d]
  obtain pid name where pid: "getitem person ''id'' = Inr pid"
    and name: "getitem person ''name'' = Inr (PStr name)"
    by auto
  define fl where "fl = name_parts name"
  define a where "a = apollo_step api_key post person (fst fl) (snd fl)"
  define d1 where "d1 = log_enrichment fails pid ''apollo'' (fst a) (fst (snd (snd a))) dry_run d"
  define b where "b = linkedin_step person (fst fl) (snd fl) connections (snd (snd (snd a)))"
  define d2 where
    "d2 = log_enrichment fails pid ''linkedin_csv'' (fst b) (fst (snd (snd b))) dry_run d1"
  define u where "u = snd (snd (snd b))"
  define err where "err = fst (snd (snd a))"
  from run have d': "d' = snd (update_step fails pid u dry_run err d2)"
    and res: "r_person_id res = pid"
    unfolding enrich_person_eq[OF pid name] Let_def fl_def a_def d1_def b_def d2_def u_def err_def
    by auto
  have p2: "people d2 = people d"
    unfolding d2_def d1_def by (simp add: people_log_enrichment)
  have w2: "writes d2 = writes d + 2" if "\<not> dry_run"
    unfolding d2_def d1_def using that by (simp add: writes_log_enrichment)
  have c1: "statuses d' =
              map (\<lambda>row. if dict_get row ''id'' = r_person_id res then PStr ''enriched''
                         else dict_get row ''status'') (people d)"
    if "\<not> dry_run" "\<not> fails (writes d + 2)"
    unfolding d' res
    using statuses_update_step[of dry_run fails d2 pid u err] that w2 p2 by simp
  have c2: "people d' = people d" if "\<not> dry_run" "fails (writes d + 2)"
    unfolding d' update_step_people using that w2 p2 by simp
  have c3: "d' = d" if dry_run
    unfolding d' d2_def d1_def using that by (simp add: update_step_dry log_enrichment_dry)
  have c4: "status_rank (dict_get person ''status'') \<le> status_rank (PStr ''enriched'')"
    if "person \<in> set (get_people None tag d)" for tag
    using get_people_default_status[OF that] by (simp add: status_rank_def)
  from c1 c2 c3 c4 show ?thesis by blast
qed

text \<open>
  A discovered prospect, selected by the default filter, ends in status enriched; with
  a store that refuses every write it stays discovered; a dry run leaves the store as
  it was.
\<close>

theorem enrich_person_writes_enriched_witness:
  "ada_row \<in> set (get_people None None ada_db) \<and>
   (\<exists>res d'. enrich_person ''key'' apollo_ok no_failure ada_row None False ada_db = Inr (res, d') \<and>
      statuses d' = [PStr ''enriched'']) \<and>
   (\<exists>res d'. enrich_person ''key'' apollo_ok every_failure ada_row None False ada_db = Inr (res, d') \<and>
      statuses d' = [PStr ''discovered'']) \<and>
   (\<exists>res. enrich_person ''key'' apollo_ok no_failure ada_row None True ada_db = Inr (res, ada_db))"
proof -
  define r where "r = enrich_person ''key'' apollo_ok no_failure ada_row None False ada_db"
  have ok: "(case r of Inl e \<Rightarrow> False | Inr x \<Rightarrow> True)"
    unfolding r_def by code_simp
  then obtain res d' where run: "r = Inr (res, d')"
    by (cases r) auto
  have sel: "ada_row \<in> set (get_people None None ada_db)"
    by code_simp
  have pid: "r_person_id (fst (projr r)) = PStr ''p1''"
    unfolding r_def by code_simp
  have before: "map (\<lambda>row. if dict_get row ''id'' = PStr ''p1'' then PStr ''enriched''
                         else dict_get row ''status'') (people ada_db) = [PStr ''enriched'']"
    by code_simp
  have nf: "\<not> no_failure (writes ada_db + 2)"
    by (simp add: no_failure_def)
  from enrich_person_writes_enriched[OF run[unfolded r_def]] nf
  have "statuses d' = map (\<lambda>row. if dict_get row ''id'' = r_person_id res then PStr ''enriched''
                         else dict_get row ''status'') (people ada_db)"
    by blast
  with pid run before have one: "statuses d' = [PStr ''enriched'']"
    by simp
  define q where "q = enrich_person ''key'' apollo_ok every_failure ada_row None False ada_db"
  have "(case q of Inl e \<Rightarrow> False | Inr x \<Rightarrow> True)"
    unfolding q_def by code_simp
  then obtain res2 d2 where run2: "q = Inr (res2, d2)"
    by (cases q) auto
  have ef: "every_failure (writes ada_db + 2)"
    by (simp add: every_failure_def)
  from enrich_person_writes_enriched[OF run2[unfolded q_def]] ef
  have "people d2 = people ada_db"
    by blast
  then have "statuses d2 = statuses ada_db"
    by (simp add: statuses_def)
  also have "statuses ada_db = [PStr ''discovered'']"
    by code_simp
  finally have two: "statuses d2 = [PStr ''discovered'']" .
  define t where "t = enrich_person ''key'' apollo_ok no_failure ada_row None True ada_db"
  have "(case t of Inl e \<Rightarrow> False | Inr x \<Rightarrow> True)"
    unfolding t_def by code_simp
  then obtain res3 d3 where run3: "t = Inr (res3, d3)"
    by (cases t) auto
  from enrich_person_writes_enriched[OF run3[unfolded t_def]]
  have "d3 = ada_db"
    by blast
  with run3 have three: "t = Inr (res3, ada_db)"
    by simp
  from sel run one run2 two three show ?thesis
    unfolding r_def q_def t_def by blast
qed

text \<open>
  C5 as stated fails: a prospect in status outreach_drafted that is targeted by its id
  is selected, and the run sets it back to enriched.
\<close>

theorem enrich_regresses_targeted_status:
  "get_people (Some ''p2'') None grace_db = [grace_row] \<and>
   dict_get grace_row ''status'' = PStr ''outreach_drafted'' \<and>
   statuses (fst (snd (snd (enrich_main ''key'' no_match no_failure (Some ''p2'') False None None
      grace_db)))) = [PStr ''enriched''] \<and>
   status_rank (PStr ''enriched'') < status_rank (PStr ''outreach_drafted'')"
  by code_simp

section \<open>A batch after the retries are used up\<close>












lemma upt_0_3: "[0 ..< 3] = [0, 1, 2]"
  by (simp add: upt_rec)









section \<open>Scoring: who is selected\<close>

lemma stale_rows_filter:
  "stale_rows cutoff ps = Inr rows \<Longrightarrow> rows = filter (due_for_scoring cutoff) ps"
proof (induction ps arbitrary: rows)
  case Nil
  then show ?case by simp
next
  case (Cons p ps)
  show ?case
  proof (cases "stale_rows cutoff ps")
    case (Inl e)
    with Cons.prems show ?thesis
      by (simp split: if_splits pyval.splits)
  next
    case (Inr qs)
    with Cons.IH have qs: "qs = filter (due_for_scoring cutoff) ps"
      by simp
    show ?thesis
    proof (cases "truthy (dict_get p ''scored_at'')")
      case False
      then have "due_for_scoring cutoff p"
        by (simp add: due_for_scoring_def)
      with False Cons.prems Inr qs show ?thesis
        by simp
    next
      case True
      show ?thesis
      proof (cases "dict_get p ''scored_at''")
        case (PStr t)
        with True have "due_for_scoring cutoff p \<longleftrightarrow> py_str_lt t cutoff"
          by (simp add: due_for_scoring_def)
        with True PStr Cons.prems Inr qs show ?thesis
          by (simp split: if_splits)
      qed (use True Cons.prems Inr in simp_all)
    qed
  qed
qed

text \<open>
  C10, as the code has it. With \<open>--person-id\<close> the selection is restricted to the rows
  with that id, whatever their status and tag; the staleness filter still applies
  unless \<open>--force\<close> is passed: the targeted prospect is selected exactly when the run is
  forced, or it was never scored, or it was scored before the cutoff.
\<close>

theorem get_people_to_score_targeted:
  assumes pid: "pid \<noteq> []"
    and sel: "get_people_to_score cutoff (Some pid) for_tag force d = Inr rows"
  shows "rows = filter (\<lambda>p. dict_get p ''id'' = PStr pid \<and> (force \<or> due_for_scoring cutoff p))
                  (people d)"
proof (cases force)
  case True
  with pid sel show ?thesis
    by (simp add: get_people_to_score_def given_def)
next
  case False
  with pid sel have "stale_rows cutoff (filter (\<lambda>row. dict_get row ''id'' = PStr pid) (people d)) = Inr rows"
    by (simp add: get_people_to_score_def given_def)
  from stale_rows_filter[OF this] False show ?thesis
    by (simp add: conj_commute)
qed

text \<open>A forced run selects the targeted prospect although it was scored an hour ago.\<close>

theorem get_people_to_score_targeted_witness:
  "get_people_to_score cutoff_example (Some ''p4'') None True fresh_db = Inr [fresh_row] \<and>
   \<not> due_for_scoring cutoff_example fresh_row"
proof -
  have sel: "get_people_to_score cutoff_example (Some ''p4'') None True fresh_db = Inr [fresh_row]"
    by code_simp
  have nd: "\<not> due_for_scoring cutoff_example fresh_row"
    by code_simp
  have "[fresh_row] = filter (\<lambda>p. dict_get p ''id'' = PStr ''p4'' \<and>
          (True \<or> due_for_scoring cutoff_example p)) (people fresh_db)"
    by (rule get_people_to_score_targeted[OF _ sel]) simp
  with sel nd show ?thesis
    by simp
qed

text \<open>
  C10 as stated fails: without \<open>--force\<close>, the prospect targeted by its id and scored an
  hour ago is not selected.
\<close>

theorem person_id_keeps_staleness_filter:
  "dict_get fresh_row ''id'' = PStr ''p4'' \<and>
   get_people_to_score cutoff_example (Some ''p4'') None False fresh_db = Inr []"
  by code_simp

section \<open>Scoring: what is accepted and persisted\<close>

lemma py_subscript_dict:
  assumes "py_subscript result k = Inr v"
  obtains dd where "result = PDict dd" "getitem dd k = Inr v"
  using assms unfolding py_subscript_def by (cases result) simp_all

lemma update_rows_priority:
  assumes "map_of u ''priority_score'' = Some s"
  shows "map (\<lambda>row. dict_get row ''priority_score'') (update_rows u pid rows) =
         map (\<lambda>row. if dict_get row ''id'' = pid then s else dict_get row ''priority_score'') rows"
  using assms by (induction rows) (simp_all add: update_rows_def dict_get_merge)

lemma people_store_write_refused:
  "fst (store_write fails f d) \<noteq> None \<Longrightarrow> people (snd (store_write fails f d)) = people d"
  by (simp add: store_write_def Let_def split: if_splits)

lemma score_one_error_keeps:
  assumes "fst (score_one loads prompt_exc llm fails now dry_run person d) \<noteq> None"
  shows "people (snd (score_one loads prompt_exc llm fails now dry_run person d)) = people d"
proof (cases "score_person loads prompt_exc llm")
  case (Inl e)
  then show ?thesis by (simp add: score_one_def)
next
  case res: (Inr result)
  show ?thesis
  proof (cases "read_result result")
    case (Inl e)
    with res show ?thesis by (simp add: score_one_def)
  next
    case rd: (Inr v)
    show ?thesis
    proof (cases "getitem person ''id''")
      case (Inl e)
      with res rd show ?thesis
        by (simp add: score_one_def case_prod_beta)
    next
      case (Inr pid)
      with res rd assms show ?thesis
        by (simp add: score_one_def case_prod_beta people_store_write_refused split: if_splits)
    qed
  qed
qed

lemma score_one_dry:
  assumes dry_run
  shows "snd (score_one loads prompt_exc llm fails now dry_run person d) = d"
  using assms unfolding score_one_def
  by (simp add: case_prod_beta split: sum.splits)

lemma read_result_dict:
  "read_result (PDict dd) =
     (case getitem dd ''total_score'' of
        Inl e \<Rightarrow> Inl e
      | Inr t \<Rightarrow>
     (case getitem dd ''proximity_score'' of
        Inl e \<Rightarrow> Inl e
      | Inr p \<Rightarrow>
     (case getitem dd ''relevance_score'' of
        Inl e \<Rightarrow> Inl e
      | Inr r \<Rightarrow>
     (case getitem dd ''urgency_score'' of
        Inl e \<Rightarrow> Inl e
      | Inr u \<Rightarrow>
          Inr (t, dict_get_default dd ''summary'' (PStr []),
               dict_get_default dd ''proximity_reasons'' (PStr []), p, r, u)))))"
  by (simp add: read_result_def py_subscript_def py_get_method_def cong: sum.case_cong)

lemma read_result_other:
  assumes "\<forall>dd. result \<noteq> PDict dd"
  shows "isl (read_result result)"
  using assms by (cases result) (auto simp: read_result_def py_subscript_def)

lemma read_result_ok:
  assumes t: "py_subscript result ''total_score'' = Inr t"
    and p: "py_subscript result ''proximity_score'' = Inr p"
    and r: "py_subscript result ''relevance_score'' = Inr r"
    and u: "py_subscript result ''urgency_score'' = Inr u"
  shows "\<exists>summary shared. read_result result = Inr (t, summary, shared, p, r, u)"
proof -
  from t obtain dd where dd: "result = PDict dd"
    by (rule py_subscript_dict)
  from t p r u show ?thesis
    unfolding dd read_result_dict by (simp add: py_subscript_def)
qed

lemma read_result_missing:
  assumes k: "k \<in> set score_keys" and miss: "isl (py_subscript result k)"
  shows "isl (read_result result)"
proof (cases "\<exists>dd. result = PDict dd")
  case False
  then show ?thesis by (intro read_result_other) blast
next
  case True
  then obtain dd where dd: "result = PDict dd"
    by blast
  from miss obtain e where e: "getitem dd k = Inl e"
    unfolding dd py_subscript_def by (cases "getitem dd k") simp_all
  show ?thesis
  proof (cases "read_result (PDict dd)")
    case (Inl x)
    then show ?thesis by (simp add: dd)
  next
    case (Inr v)
    then have "\<not> isl (getitem dd ''total_score'') \<and> \<not> isl (getitem dd ''proximity_score'') \<and>
               \<not> isl (getitem dd ''relevance_score'') \<and> \<not> isl (getitem dd ''urgency_score'')"
      unfolding read_result_dict by (simp split: sum.splits)
    with k e show ?thesis
      by (auto simp: score_keys_def)
  qed
qed

lemma score_one_accepts:
  assumes res: "score_person loads prompt_exc llm = Inr result"
    and t: "py_subscript result ''total_score'' = Inr t"
    and p: "py_subscript result ''proximity_score'' = Inr p"
    and r: "py_subscript result ''relevance_score'' = Inr r"
    and u: "py_subscript result ''urgency_score'' = Inr u"
    and pid: "getitem person ''id'' = Inr pid"
    and wet: "\<not> dry_run" and ok: "\<not> fails (writes d)"
  shows "fst (score_one loads prompt_exc llm fails now dry_run person d) = None \<and>
         priority_scores (snd (score_one loads prompt_exc llm fails now dry_run person d)) =
           map (\<lambda>row. if dict_get row ''id'' = pid then t else dict_get row ''priority_score'')
             (people d)"
proof -
  from read_result_ok[OF t p r u] obtain summary shared where
    rd: "read_result result = Inr (t, summary, shared, p, r, u)"
    by blast
  show ?thesis
    using pid wet ok
    by (simp add: score_one_def res rd priority_scores_def store_write_def Let_def
        update_people_def update_rows_priority)
qed

lemma score_one_refused:
  assumes res: "score_person loads prompt_exc llm = Inr result"
    and t: "py_subscript result ''total_score'' = Inr t"
    and p: "py_subscript result ''proximity_score'' = Inr p"
    and r: "py_subscript result ''relevance_score'' = Inr r"
    and u: "py_subscript result ''urgency_score'' = Inr u"
    and pid: "getitem person ''id'' = Inr pid"
    and wet: "\<not> dry_run" and refused: "fails (writes d)"
  shows "score_one loads prompt_exc llm fails now dry_run person d =
           (Some StoreError, d\<lparr>writes := Suc (writes d)\<rparr>)"
proof -
  from read_result_ok[OF t p r u] obtain summary shared where
    rd: "read_result result = Inr (t, summary, shared, p, r, u)"
    by blast
  show ?thesis
    using pid wet refused
    by (simp add: score_one_def res rd store_write_def Let_def)
qed

lemma score_one_no_id:
  assumes res: "score_person loads prompt_exc llm = Inr result"
    and t: "py_subscript result ''total_score'' = Inr t"
    and p: "py_subscript result ''proximity_score'' = Inr p"
    and r: "py_subscript result ''relevance_score'' = Inr r"
    and u: "py_subscript result ''urgency_score'' = Inr u"
    and pid: "getitem person ''id'' = Inl e"
    and wet: "\<not> dry_run"
  shows "score_one loads prompt_exc llm fails now dry_run person d = (Some e, d)"
proof -
  from read_result_ok[OF t p r u] obtain summary shared where
    rd: "read_result result = Inr (t, summary, shared, p, r, u)"
    by blast
  show ?thesis
    using pid wet by (simp add: score_one_def res rd)
qed

lemma score_one_dry_accepts:
  assumes res: "score_person loads prompt_exc llm = Inr result"
    and t: "py_subscript result ''total_score'' = Inr t"
    and p: "py_subscript result ''proximity_score'' = Inr p"
    and r: "py_subscript result ''relevance_score'' = Inr r"
    and u: "py_subscript result ''urgency_score'' = Inr u"
    and dry: dry_run
  shows "score_one loads prompt_exc llm fails now dry_run person d = (None, d)"
proof -
  from read_result_ok[OF t p r u] obtain summary shared where
    rd: "read_result result = Inr (t, summary, shared, p, r, u)"
    by blast
  show ?thesis
    using dry by (simp add: score_one_def res rd)
qed

lemma score_one_missing_key:
  assumes res: "score_person loads prompt_exc llm = Inr result"
    and k: "k \<in> set score_keys" and miss: "isl (py_subscript result k)"
  shows "fst (score_one loads prompt_exc llm fails now dry_run person d) \<noteq> None"
proof -
  from read_result_missing[OF k miss] obtain e where "read_result result = Inl e"
    by (cases "read_result result") simp_all
  then show ?thesis
    unfolding score_one_def res by simp
qed

lemma score_one_no_result:
  assumes "score_person loads prompt_exc llm = Inl e"
  shows "score_one loads prompt_exc llm fails now dry_run person d = (Some e, d)"
  unfolding score_one_def assms by simp

text \<open>
  C1, as the code has it. A result that holds the four score keys is accepted as it is,
  with no test of the sum or of any bound. Outside a dry run, for a person row that
  holds an id and with the store accepting the write, its total is written as the
  priority score of the person's rows and of no other row, and the step ends without
  an error. With the store refusing the write the step ends in the store's error and
  nothing but the count of write requests has changed; for a row without an id it ends
  in the KeyError and the store is as it was; in a dry run it ends without an error
  and the store is as it was. A result that lacks one of the four keys, and a reply
  that gives no result at all, end in an error for that person; whenever the step ends
  in an error the people table is left as it was.
\<close>

theorem score_one_persists_unchecked:
  "(\<forall>result t p r u pid.
      score_person loads prompt_exc llm = Inr result \<and>
      py_subscript result ''total_score'' = Inr t \<and>
      py_subscript result ''proximity_score'' = Inr p \<and>
      py_subscript result ''relevance_score'' = Inr r \<and>
      py_subscript result ''urgency_score'' = Inr u \<and>
      getitem person ''id'' = Inr pid \<and> \<not> dry_run \<and> \<not> fails (writes d) \<longrightarrow>
      fst (score_one loads prompt_exc llm fails now dry_run person d) = None \<and>
      priority_scores (snd (score_one loads prompt_exc llm fails now dry_run person d)) =
        map (\<lambda>row. if dict_get row ''id'' = pid then t else dict_get row ''priority_score'')
          (people d)) \<and>
   (\<forall>result t p r u pid.
      score_person loads prompt_exc llm = Inr result \<and>
      py_subscript result ''total_score'' = Inr t \<and>
      py_subscript result ''proximity_score'' = Inr p \<and>
      py_subscript result ''relevance_score'' = Inr r \<and>
      py_subscript result ''urgency_score'' = Inr u \<and>
      getitem person ''id'' = Inr pid \<and> \<not> dry_run \<and> fails (writes d) \<longrightarrow>
      score_one loads prompt_exc llm fails now dry_run person d =
        (Some StoreError, d\<lparr>writes := Suc (writes d)\<rparr>)) \<and>
   (\<forall>result t p r u e.
      score_person loads prompt_exc llm = Inr result \<and>
      py_subscript result ''total_score'' = Inr t \<and>
      py_subscript result ''proximity_score'' = Inr p \<and>
      py_subscript result ''relevance_score'' = Inr r \<and>
      py_subscript result ''urgency_score'' = Inr u \<and>
      getitem person ''id'' = Inl e \<and> \<not> dry_run \<longrightarrow>
      score_one loads prompt_exc llm fails now dry_run person d = (Some e, d)) \<and>
   (\<forall>result t p r u.
      score_person loads prompt_exc llm = Inr result \<and>
      py_subscript result ''total_score'' = Inr t \<and>
      py_subscript result ''proximity_score'' = Inr p \<and>
      py_subscript result ''relevance_score'' = Inr r \<and>
      py_subscript result ''urgency_score'' = Inr u \<and> dry_run \<longrightarrow>
      score_one loads prompt_exc llm fails now dry_run person d = (None, d)) \<and>
   (\<forall>result. score_person loads prompt_exc llm = Inr result \<and>
      (\<exists>k\<in>set score_keys. isl (py_subscript result k)) \<longrightarrow>
      fst (score_one loads prompt_exc llm fails now dry_run person d) \<noteq> None) \<and>
   (\<forall>e. score_person loads prompt_exc llm = Inl e \<longrightarrow>
      score_one loads prompt_exc llm fails now dry_run person d = (Some e, d)) \<and>
   (fst (score_one loads prompt_exc llm fails now dry_run person d) \<noteq> None \<longrightarrow>
      people (snd (score_one loads prompt_exc llm fails now dry_run person d)) = people d) \<and>
   (dry_run \<longrightarrow> snd (score_one loads prompt_exc llm fails now dry_run person d) = d)"
proof (intro conjI allI impI)
  fix result t p r u pid
  assume h: "score_person loads prompt_exc llm = Inr result \<and>
      py_subscript result ''total_score'' = Inr t \<and>
      py_subscript result ''proximity_score'' = Inr p \<and>
      py_subscript result ''relevance_score'' = Inr r \<and>
      py_subscript result ''urgency_score'' = Inr u \<and>
      getitem person ''id'' = Inr pid \<and> \<not> dry_run \<and> \<not> fails (writes d)"
  from h score_one_accepts[of loads prompt_exc llm result t p r u person pid dry_run fails d now]
  show "fst (score_one loads prompt_exc llm fails now dry_run person d) = None"
    by blast
  from h score_one_accepts[of loads prompt_exc llm result t p r u person pid dry_run fails d now]
  show "priority_scores (snd (score_one loads prompt_exc llm fails now dry_run person d)) =
        map (\<lambda>row. if dict_get row ''id'' = pid then t else dict_get row ''priority_score'')
          (people d)"
    by blast
next
  fix result t p r u pid
  assume h: "score_person loads prompt_exc llm = Inr result \<and>
      py_subscript result ''total_score'' = Inr t \<and>
      py_subscript result ''proximity_score'' = Inr p \<and>
      py_subscript result ''relevance_score'' = Inr r \<and>
      py_subscript result ''urgency_score'' = Inr u \<and>
      getitem person ''id'' = Inr pid \<and> \<not> dry_run \<and> fails (writes d)"
  from h score_one_refused[of loads prompt_exc llm result t p r u person pid dry_run fails d now]
  show "score_one loads prompt_exc llm fails now dry_run person d =
        (Some StoreError, d\<lparr>writes := Suc (writes d)\<rparr>)"
    by blast
next
  fix result t p r u e
  assume h: "score_person loads prompt_exc llm = Inr result \<and>
      py_subscript result ''total_score'' = Inr t \<and>
      py_subscript result ''proximity_score'' = Inr p \<and>
      py_subscript result ''relevance_score'' = Inr r \<and>
      py_subscript result ''urgency_score'' = Inr u \<and>
      getitem person ''id'' = Inl e \<and> \<not> dry_run"
  from h score_one_no_id[of loads prompt_exc llm result t p r u person e dry_run fails now d]
  show "score_one loads prompt_exc llm fails now dry_run person d = (Some e, d)"
    by blast
next
  fix result t p r u
  assume h: "score_person loads prompt_exc llm = Inr result \<and>
      py_subscript result ''total_score'' = Inr t \<and>
      py_subscript result ''proximity_score'' = Inr p \<and>
      py_subscript result ''relevance_score'' = Inr r \<and>
      py_subscript result ''urgency_score'' = Inr u \<and> dry_run"
  from h score_one_dry_accepts[of loads prompt_exc llm result t p r u dry_run fails now person d]
  show "score_one loads prompt_exc llm fails now dry_run person d = (None, d)"
    by blast
next
  fix result
  assume "score_person loads prompt_exc llm = Inr result \<and>
      (\<exists>k\<in>set score_keys. isl (py_subscript result k))"
  with score_one_missing_key[of loads prompt_exc llm result _ fails now dry_run person d]
  show "fst (score_one loads prompt_exc llm fails now dry_run person d) \<noteq> None"
    by blast
next
  fix e
  assume "score_person loads prompt_exc llm = Inl e"
  then show "score_one loads prompt_exc llm fails now dry_run person d = (Some e, d)"
    by (rule score_one_no_result)
next
  assume "fst (score_one loads prompt_exc llm fails now dry_run person d) \<noteq> None"
  then show "people (snd (score_one loads prompt_exc llm fails now dry_run person d)) = people d"
    by (rule score_one_error_keeps)
next
  assume dry_run
  then show "snd (score_one loads prompt_exc llm fails now dry_run person d) = d"
    by (rule score_one_dry)
qed

text \<open>
  A result within the rubric, 60 = 20 + 25 + 15, is written as priority score 60; with
  a store that refuses every write the step ends in the store's error and the priority
  score stays unset.
\<close>

theorem score_one_persists_unchecked_witness:
  "score_person loads_example None good_llm = Inr good_result \<and>
   fst (score_one loads_example None good_llm no_failure now_example False ada_row ada_db) = None \<and>
   priority_scores (snd (score_one loads_example None good_llm no_failure now_example False
     ada_row ada_db)) = [PInt 60] \<and>
   score_one loads_example None good_llm every_failure now_example False ada_row ada_db =
     (Some StoreError, ada_db\<lparr>writes := 1\<rparr>) \<and>
   priority_scores (ada_db\<lparr>writes := 1\<rparr>) = [PNone]"
proof -
  have res: "score_person loads_example None good_llm = Inr good_result"
    by code_simp
  have t: "py_subscript good_result ''total_score'' = Inr (PInt 60)"
    and p: "py_subscript good_result ''proximity_score'' = Inr (PInt 20)"
    and r: "py_subscript good_result ''relevance_score'' = Inr (PInt 25)"
    and u: "py_subscript good_result ''urgency_score'' = Inr (PInt 15)"
    and pid: "getitem ada_row ''id'' = Inr (PStr ''p1'')"
    by code_simp+
  have ok: "\<not> no_failure (writes ada_db)"
    by (simp add: no_failure_def)
  have refused: "every_failure (writes ada_db)"
    by (simp add: every_failure_def)
  have w: "Suc (writes ada_db) = 1"
    by (simp add: ada_db_def)
  have col: "map (\<lambda>row. if dict_get row ''id'' = PStr ''p1'' then PInt 60
                         else dict_get row ''priority_score'') (people ada_db) = [PInt 60]"
    by code_simp
  have unset: "priority_scores (ada_db\<lparr>writes := 1\<rparr>) = [PNone]"
    by code_simp
  note accepted = score_one_persists_unchecked[of loads_example None good_llm ada_row False
      no_failure ada_db now_example, THEN conjunct1, rule_format,
      of good_result "PInt 60" "PInt 20" "PInt 25" "PInt 15" "PStr ''p1''"]
  note refusal = score_one_persists_unchecked[of loads_example None good_llm ada_row False
      every_failure ada_db now_example, THEN conjunct2, THEN conjunct1, rule_format,
      of good_result "PInt 60" "PInt 20" "PInt 25" "PInt 15" "PStr ''p1''"]
  from accepted res t p r u pid ok
  have "fst (score_one loads_example None good_llm no_failure now_example False ada_row ada_db) = None \<and>
        priority_scores (snd (score_one loads_example None good_llm no_failure now_example False
          ada_row ada_db)) =
          map (\<lambda>row. if dict_get row ''id'' = PStr ''p1'' then PInt 60
                      else dict_get row ''priority_score'') (people ada_db)"
    by simp
  moreover
  from refusal res t p r u pid refused
  have "score_one loads_example None good_llm every_failure now_example False ada_row ada_db =
          (Some StoreError, ada_db\<lparr>writes := Suc (writes ada_db)\<rparr>)"
    by simp
  ultimately show ?thesis
    using res col unset w by simp
qed

text \<open>
  C1 as stated fails: a result with total 500 and sub-scores 1, 1, 1 breaks the
  aggregation contract, and is accepted and written as priority score 500.
\<close>

theorem score_out_of_bounds_persisted:
  "\<not> score_contract wild_result \<and>
   score_person loads_example None wild_llm = Inr wild_result \<and>
   fst (score_one loads_example None wild_llm no_failure now_example False ada_row ada_db) = None \<and>
   priority_scores (snd (score_one loads_example None wild_llm no_failure now_example False
     ada_row ada_db)) = [PInt 500]"
  by code_simp

section \<open>Structured output extractor: repair and round trip\<close>

lemma py_find_ge: "- 1 \<le> py_find c xs"
proof (induction xs)
  case Nil
  then show ?case by simp
next
  case (Cons x xs)
  then show ?case by (simp add: Let_def)
qed

lemma py_find_none: "py_find c xs = - 1 \<longleftrightarrow> c \<notin> set xs"
proof (induction xs)
  case Nil
  then show ?case by simp
next
  case (Cons x xs)
  have "py_find c xs + 1 \<noteq> - 1"
    using py_find_ge[of c xs] by linarith
  with Cons show ?case
    by (simp add: Let_def)
qed

lemma py_find_split:
  "c \<in> set xs \<Longrightarrow> \<exists>pre rest. xs = pre @ c # rest \<and> c \<notin> set pre \<and> py_find c xs = int (length pre)"
proof (induction xs)
  case Nil
  then show ?case by simp
next
  case (Cons x xs)
  show ?case
  proof (cases "x = c")
    case True
    then show ?thesis
      by (intro exI[of _ "[]"] exI[of _ xs]) simp
  next
    case False
    with Cons.prems have "c \<in> set xs" by simp
    from Cons.IH[OF this] obtain pre rest where
      s: "xs = pre @ c # rest" "c \<notin> set pre" "py_find c xs = int (length pre)"
      by blast
    have "py_find c (x # xs) = int (length (x # pre))"
      using False s(3) by (simp add: Let_def)
    with s(1,2) False show ?thesis
      by (intro exI[of _ "x # pre"] exI[of _ rest]) simp
  qed
qed

lemma py_rfind_split:
  assumes "c \<in> set s"
  shows "\<exists>pre rest. s = pre @ c # rest \<and> c \<notin> set rest \<and> py_rfind c s = int (length pre)"
proof -
  from assms have "c \<in> set (rev s)" by simp
  from py_find_split[OF this] obtain p r where
    s: "rev s = p @ c # r" "c \<notin> set p" "py_find c (rev s) = int (length p)"
    by blast
  from s(1) have "rev (rev s) = rev (p @ c # r)"
    by simp
  then have eq: "s = rev r @ c # rev p"
    by simp
  then have "length s = length (rev r @ c # rev p)"
    by simp
  then have len: "int (length s) = int (length r) + 1 + int (length p)"
    by simp
  have "py_rfind c s = int (length s) - 1 - int (length p)"
    unfolding py_rfind_def Let_def s(3) by simp
  with len have "py_rfind c s = int (length (rev r))"
    by simp
  with eq s(2) show ?thesis
    by (intro exI[of _ "rev r"] exI[of _ "rev p"]) simp
qed

lemma py_rfind_none: "c \<notin> set s \<Longrightarrow> py_rfind c s = - 1"
proof -
  assume "c \<notin> set s"
  then have "py_find c (rev s) = - 1"
    by (simp add: py_find_none)
  then show ?thesis
    unfolding py_rfind_def Let_def by simp
qed

lemma py_rfind_some: "c \<in> set s \<Longrightarrow> py_rfind c s \<noteq> - 1"
proof -
  assume "c \<in> set s"
  from py_rfind_split[OF this] obtain pre :: string where "py_rfind c s = int (length pre)"
    by blast
  then show ?thesis by simp
qed

lemma repair_cut:
  assumes need: "stop_reason = ''max_tokens'' \<or> \<not> py_endswith (array_text content) '']''"
    and brace: "CHR ''}'' \<in> set (array_text content)"
  shows "\<exists>pre rest. array_text content = pre @ CHR ''}'' # rest \<and> CHR ''}'' \<notin> set rest \<and>
           extract_json_str stop_reason content = pre @ ''}]''"
proof -
  from py_rfind_split[OF brace] obtain pre rest where
    s: "array_text content = pre @ CHR ''}'' # rest" "CHR ''}'' \<notin> set rest"
      and f: "py_rfind (CHR ''}'') (array_text content) = int (length pre)"
    by blast
  have n: "nat (int (length pre) + 1) = Suc (length pre)"
    by simp
  have t: "take (Suc (length pre)) (pre @ CHR ''}'' # rest) = pre @ [CHR ''}'']"
    by simp
  define a where "a = array_text content"
  have "extract_json_str stop_reason content = take (nat (py_rfind (CHR ''}'') a + 1)) a @ '']''"
    using need py_rfind_some[OF brace]
    unfolding extract_json_str_def Let_def a_def[symmetric] by presburger
  also have "take (nat (py_rfind (CHR ''}'') a + 1)) a = take (Suc (length pre)) a"
    unfolding a_def f n by (rule refl)
  also have "take (Suc (length pre)) a = pre @ [CHR ''}'']"
    unfolding a_def s(1) by (rule t)
  finally have "extract_json_str stop_reason content = pre @ ''}]''"
    by simp
  with s show ?thesis
    by blast
qed

lemma repair_none:
  assumes "CHR ''}'' \<notin> set (array_text content)"
  shows "extract_json_str stop_reason content = array_text content"
  unfolding extract_json_str_def Let_def py_rfind_none[OF assms] by simp

lemma repair_not_needed:
  assumes "stop_reason \<noteq> ''max_tokens''" "py_endswith (array_text content) '']''"
  shows "extract_json_str stop_reason content = array_text content"
  unfolding extract_json_str_def Let_def using assms by presburger

lemma py_startswith_one: "py_startswith s [a] \<longleftrightarrow> (\<exists>m. s = a # m)"
  by (cases s) (simp_all add: py_startswith_def)

lemma py_endswith_one: "py_endswith s [b] \<longleftrightarrow> (\<exists>m. s = m @ [b])"
  by (cases s rule: rev_cases) (simp_all add: py_endswith_def)

lemma rstrip_keeps:
  assumes "\<not> P b"
  shows "rev (dropWhile P (rev (m @ [b]))) = m @ [b]"
  using assms by simp

lemma clean_text:
  assumes first: "s = a # m" and final: "s = n @ [b]"
    and a: "\<not> py_isspace a" "a \<noteq> CHR 0x60" and b: "\<not> py_isspace b" "b \<noteq> CHR 0x60"
  shows "py_strip (py_rstrip_char (CHR 0x60) (strip_code_fence s)) = s"
proof -
  have fence: "strip_code_fence s = s"
    unfolding strip_code_fence_def py_startswith_def first using a(2) by simp
  have ticks: "py_rstrip_char (CHR 0x60) s = s"
    unfolding py_rstrip_char_def final using b(2) by simp
  have left: "py_lstrip s = s"
    unfolding py_lstrip_def first using a(1) by simp
  have right: "py_rstrip s = s"
    unfolding py_rstrip_def final using b(1) by simp
  show ?thesis
    unfolding fence ticks py_strip_def left right by (rule refl)
qed

lemma array_text_valid:
  assumes "py_startswith (py_strip content) ''[''" "py_endswith (py_strip content) '']''"
  shows "array_text content = py_strip content"
proof -
  from assms obtain m n where first: "py_strip content = CHR ''['' # m"
    and final: "py_strip content = n @ [CHR '']'']"
    unfolding py_startswith_one py_endswith_one by blast
  have "py_strip (py_rstrip_char (CHR 0x60) (strip_code_fence (py_strip content))) = py_strip content"
    by (rule clean_text[OF first final]) (simp_all add: py_isspace_def)
  then show ?thesis
    unfolding array_text_def Let_def by (simp add: first)
qed

lemma object_json_str_valid:
  assumes "py_startswith (py_strip content) ''{''" "py_endswith (py_strip content) ''}''"
  shows "object_json_str content = py_strip content"
proof -
  from assms obtain m n where first: "py_strip content = CHR ''{'' # m"
    and final: "py_strip content = n @ [CHR ''}'']"
    unfolding py_startswith_one py_endswith_one by blast
  show ?thesis
    unfolding object_json_str_def
    by (rule clean_text[OF first final]) (simp_all add: py_isspace_def)
qed

lemma claude_call_first:
  assumes "llm 0 = Completion content stop_reason"
  shows "fst (claude_call llm [0 ..< 3] []) = Inr (content, stop_reason)"
  unfolding upt_0_3 using assms by simp

text \<open>
  C7, as the code has it. When the completion is flagged as truncated, or the located
  text does not end with the closing bracket, and the text holds a closing brace, the
  text is cut after its last closing brace and the closing bracket is appended; a text
  without a closing brace is left as it is. The result is the text handed to the
  parser. In particular the completion \<open>[{"name":"A"},{"name":"B"\<close>, flagged as
  truncated, is repaired to \<open>[{"name":"A"}]\<close>, and the extractor returns what the
  parser returns for that text.
\<close>

theorem truncation_repair:
  "((stop_reason = ''max_tokens'' \<or> \<not> py_endswith (array_text content) '']'') \<and>
    CHR ''}'' \<in> set (array_text content) \<longrightarrow>
      (\<exists>pre rest. array_text content = pre @ CHR ''}'' # rest \<and> CHR ''}'' \<notin> set rest \<and>
         extract_json_str stop_reason content = pre @ ''}]'')) \<and>
   (CHR ''}'' \<notin> set (array_text content) \<longrightarrow>
      extract_json_str stop_reason content = array_text content) \<and>
   (\<forall>llm. llm 0 = Completion content stop_reason \<longrightarrow>
      extract_people loads llm = loads (extract_json_str stop_reason content)) \<and>
   extract_json_str ''max_tokens'' cut_text = repaired_text \<and>
   extract_people loads cut_llm = loads repaired_text"
proof -
  have ex: "extract_json_str ''max_tokens'' cut_text = repaired_text"
    by code_simp
  have run: "extract_people loads llm = loads (extract_json_str sr c)"
    if "llm 0 = Completion c sr" for llm c sr
    unfolding extract_people_def claude_call_first[of llm c sr, OF that] by simp
  have "cut_llm 0 = Completion cut_text ''max_tokens''"
    by (simp add: cut_llm_def)
  from run[of cut_llm cut_text "''max_tokens''", OF this] ex have "extract_people loads cut_llm = loads repaired_text"
    by simp
  with ex run repair_cut[of stop_reason content] repair_none[of content stop_reason]
  show ?thesis
    by blast
qed

text \<open>The scenario's text holds a closing brace and is cut after the last one.\<close>

theorem truncation_repair_witness:
  "CHR ''}'' \<in> set (array_text cut_text) \<and>
   (\<exists>pre rest. array_text cut_text = pre @ CHR ''}'' # rest \<and> CHR ''}'' \<notin> set rest \<and>
      extract_json_str ''max_tokens'' cut_text = pre @ ''}]'') \<and>
   extract_json_str ''max_tokens'' cut_text = repaired_text"
proof -
  have b: "CHR ''}'' \<in> set (array_text cut_text)"
    by code_simp
  from truncation_repair[of "''max_tokens''" cut_text] b show ?thesis
    by blast
qed

text \<open>
  C7 as stated fails: the completion \<open>[1, 2\<close>, flagged as truncated, goes to the parser
  as it is; nothing is cut and no closing bracket is appended.
\<close>

theorem repair_skipped_without_brace:
  "extract_json_str ''max_tokens'' ''[1, 2'' = ''[1, 2'' \<and>
   spec_truncation_repair ''[1, 2'' = '']'' \<and>
   \<not> py_endswith (extract_json_str ''max_tokens'' ''[1, 2'') '']''"
  by code_simp

text \<open>
  C8, as the code has it. A text that, trimmed, starts with \<open>[\<close> and ends with \<open>]\<close>, as every
  valid unfenced JSON array does, and that is not flagged as truncated, is handed to
  the parser by the array extractor (\<open>extract_people\<close>) with nothing changed but the
  surrounding white space removed. A text that, trimmed, starts with an opening brace
  and ends with a closing brace, as every valid unfenced JSON object does, is handed to
  the parser by the single-object path (\<open>score_person\<close>) in the same way, whatever the
  stop reason. The value returned is the parser's value for that text.
\<close>

theorem valid_text_round_trip:
  "(py_startswith (py_strip content) ''['' \<and> py_endswith (py_strip content) '']'' \<and>
    stop_reason \<noteq> ''max_tokens'' \<longrightarrow>
      extract_json_str stop_reason content = py_strip content \<and>
      (\<forall>llm. llm 0 = Completion content stop_reason \<longrightarrow>
         extract_people loads llm = loads (py_strip content))) \<and>
   (py_startswith (py_strip content) ''{'' \<and> py_endswith (py_strip content) ''}'' \<longrightarrow>
      object_json_str content = py_strip content \<and>
      (\<forall>llm. llm 0 = Completion content stop_reason \<longrightarrow>
         score_person loads None llm = loads (py_strip content)))"
proof -
  have arr: "extract_json_str stop_reason content = py_strip content"
    if "py_startswith (py_strip content) ''[''" "py_endswith (py_strip content) '']''"
      "stop_reason \<noteq> ''max_tokens''"
  proof -
    have a: "array_text content = py_strip content"
      by (rule array_text_valid[OF that(1,2)])
    show ?thesis
      using repair_not_needed[OF that(3), of content] that(2) unfolding a by simp
  qed
  have run: "extract_people loads llm = loads (extract_json_str stop_reason content)"
    if "llm 0 = Completion content stop_reason" for llm
    unfolding extract_people_def claude_call_first[of llm content stop_reason, OF that] by simp
  have obj: "score_person loads None llm = loads (object_json_str content)"
    if "llm 0 = Completion content stop_reason" for llm
    unfolding score_person_def claude_call_first[of llm content stop_reason, OF that] by simp
  from arr run obj object_json_str_valid[of content] show ?thesis
    by simp
qed

text \<open>
  A padded valid array goes through the array extractor, and a valid object through the
  single-object path, and each is parsed to its value.
\<close>

theorem valid_text_round_trip_witness:
  "py_startswith (py_strip padded_text) ''['' \<and> py_endswith (py_strip padded_text) '']'' \<and>
   py_strip padded_text = repaired_text \<and>
   extract_json_str ''end_turn'' padded_text = repaired_text \<and>
   extract_people loads_example padded_llm = Inr repaired_result \<and>
   py_startswith (py_strip good_text) ''{'' \<and> py_endswith (py_strip good_text) ''}'' \<and>
   score_person loads_example None good_llm = Inr good_result"
proof -
  have a: "py_startswith (py_strip padded_text) ''[''" "py_endswith (py_strip padded_text) '']''"
    and s: "py_strip padded_text = repaired_text"
    and o: "py_startswith (py_strip good_text) ''{''" "py_endswith (py_strip good_text) ''}''"
    and g: "loads_example (py_strip good_text) = Inr good_result"
    and v: "loads_example repaired_text = Inr repaired_result"
    by code_simp+
  have ne: "''end_turn'' \<noteq> ''max_tokens''"
    by simp
  have l: "padded_llm 0 = Completion padded_text ''end_turn''"
    "good_llm 0 = Completion good_text ''end_turn''"
    by (simp_all add: padded_llm_def good_llm_def)
  from valid_text_round_trip[of padded_text "''end_turn''" loads_example] a ne l(1)
  have "extract_json_str ''end_turn'' padded_text = py_strip padded_text \<and>
        extract_people loads_example padded_llm = loads_example (py_strip padded_text)"
    by blast
  moreover from valid_text_round_trip[of good_text "''end_turn''" loads_example] o l(2)
  have "score_person loads_example None good_llm = loads_example (py_strip good_text)"
    by blast
  ultimately show ?thesis
    using a s o g v by simp
qed

text \<open>
  C8 as stated fails for a valid object on the array path. The object \<open>{"a": [1, 2]}\<close>,
  not flagged as truncated, parses as it stands; the array extractor discards what
  precedes the first opening bracket, finds that the rest does not end with a closing
  bracket, cuts after the last closing brace and appends a bracket, and hands
  \<open>[1, 2]}]\<close> to the parser, which rejects it. The single-object path returns the
  object's value.
\<close>

theorem valid_object_not_round_tripped:
  "loads_example nested_text = Inr nested_result \<and>
   py_strip nested_text = nested_text \<and>
   extract_json_str ''end_turn'' nested_text = ''[1, 2]}]'' \<and>
   loads_example ''[1, 2]}]'' = Inl ValueError \<and>
   extract_people loads_example nested_llm = Inl ValueError \<and>
   score_person loads_example None nested_llm = Inr nested_result"
  by code_simp

section \<open>Drafting: one outreach row per prospect\<close>

lemma outreach_store_write_people:
  "outreach (snd (store_write fails (update_people u p) d)) = outreach d"
  by (simp add: store_write_def Let_def update_people_def)

lemma outreach_store_write_insert:
  "\<exists>new. outreach (snd (store_write fails (insert_outreach row) d)) = outreach d @ new \<and>
         (\<forall>r\<in>set new. dict_get r ''person_id'' = dict_get row ''person_id'')"
proof (cases "fails (writes d)")
  case True
  then show ?thesis
    by (intro exI[of _ "[]"]) (simp add: store_write_def Let_def)
next
  case False
  have "dict_get (AList.update ''id'' v row) ''person_id'' = dict_get row ''person_id''" for v
    by (simp add: dict_get_def dict_get_default_def update_conv')
  with False show ?thesis
    by (intro exI[of _ "[AList.update ''id'' (PInt (int (Suc (writes d)))) row]"])
      (simp add: store_write_def Let_def insert_outreach_def)
qed

lemma length_outreach_store_write_update:
  "length (outreach (snd (store_write fails (update_outreach u oid) d))) = length (outreach d)"
  by (simp add: store_write_def Let_def update_outreach_def update_rows_def)


lemma draft_one_outreach:
  "\<exists>new. outreach (snd (draft_one loads prompt_exc llm fails dry_run person d)) = outreach d @ new \<and>
         (\<forall>r\<in>set new. getitem person ''id'' = Inr (dict_get r ''person_id''))"
proof -
  have keep: "snd (draft_one loads prompt_exc llm fails dry_run person d) = d \<Longrightarrow> ?thesis"
    by (intro exI[of _ "[]"]) simp
  show ?thesis
  proof (cases "draft_email loads prompt_exc llm")
    case (Inl e)
    then show ?thesis by (intro keep) (simp add: draft_one_def)
  next
    case res: (Inr result)
    show ?thesis
    proof (cases "py_subscript result ''subject''")
      case (Inl e)
      with res show ?thesis by (intro keep) (simp add: draft_one_def)
    next
      case subj: (Inr subject)
      show ?thesis
      proof (cases "py_subscript result ''body''")
        case (Inl e)
        with res subj show ?thesis by (intro keep) (simp add: draft_one_def)
      next
        case bd: (Inr b)
        show ?thesis
        proof (cases "\<exists>body. b = PStr body \<and> \<not> dry_run \<and> \<not> isl (getitem person ''id'')")
          case False
          with res subj bd show ?thesis
            by (intro keep) (cases b; cases "getitem person ''id''"; simp add: draft_one_def)
        next
          case True
          then obtain body pid where b: "b = PStr body" and wet: "\<not> dry_run"
            and pid: "getitem person ''id'' = Inr pid"
            by (cases "getitem person ''id''") auto
          define row where "row = [(''person_id'', pid), (''channel'', PStr ''email''),
              (''subject'', subject), (''body'', PStr body), (''status'', PStr ''drafted'')]"
          have pr: "dict_get row ''person_id'' = pid"
            by (simp add: row_def dict_get_def dict_get_default_def)
          obtain e d1 where w: "store_write fails (insert_outreach row) d = (e, d1)"
            by (cases "store_write fails (insert_outreach row) d") auto
          from outreach_store_write_insert[of fails row d] w pr obtain new where
            new: "outreach d1 = outreach d @ new" "\<forall>r\<in>set new. dict_get r ''person_id'' = pid"
            by auto
          have "outreach (snd (draft_one loads prompt_exc llm fails dry_run person d)) = outreach d1"
            using res subj bd b wet pid w
            by (cases e) (simp_all add: draft_one_def row_def outreach_store_write_people)
          with new pid show ?thesis
            by (intro exI[of _ new]) simp
        qed
      qed
    qed
  qed
qed

lemma draft_loop_outreach:
  "\<exists>new. outreach (snd (snd (draft_loop loads has_template prompt_exc llm fails dry_run i ps s d))) =
           outreach d @ new \<and>
         (\<forall>r\<in>set new. \<exists>p\<in>set ps. getitem p ''id'' = Inr (dict_get r ''person_id''))"
proof (induction ps arbitrary: i s d)
  case Nil
  then show ?case by simp
next
  case (Cons p ps)
  show ?case
  proof (cases "getitem p ''name''")
    case (Inl e)
    then show ?thesis by (intro exI[of _ "[]"]) simp
  next
    case name: (Inr n)
    show ?thesis
    proof (cases "has_template (py_or (dict_get p ''for_tag'') (PStr []))")
      case False
      from Cons.IH[of "Suc i" "s\<lparr>skipped := skipped s + 1\<rparr>" d] obtain new where
        "outreach (snd (snd (draft_loop loads has_template prompt_exc llm fails dry_run (Suc i) ps
           (s\<lparr>skipped := skipped s + 1\<rparr>) d))) = outreach d @ new"
        "\<forall>r\<in>set new. \<exists>p\<in>set ps. getitem p ''id'' = Inr (dict_get r ''person_id'')"
        by blast
      with name False show ?thesis
        by (intro exI[of _ new]) simp
    next
      case True
      obtain e d1 where one:
        "draft_one loads (prompt_exc i) (llm i) fails dry_run p d = (e, d1)"
        by (cases "draft_one loads (prompt_exc i) (llm i) fails dry_run p d") auto
      from draft_one_outreach[of loads "prompt_exc i" "llm i" fails dry_run p d] one
      obtain new1 where n1: "outreach d1 = outreach d @ new1"
        "\<forall>r\<in>set new1. getitem p ''id'' = Inr (dict_get r ''person_id'')"
        by auto
      define s1 where "s1 = (case e of None \<Rightarrow> s\<lparr>drafted := drafted s + 1\<rparr>
                                     | Some x \<Rightarrow> s\<lparr>draft_errors := draft_errors s + 1\<rparr>)"
      have step: "draft_loop loads has_template prompt_exc llm fails dry_run i (p # ps) s d =
                  draft_loop loads has_template prompt_exc llm fails dry_run (Suc i) ps s1 d1"
        using name True one by (cases e) (simp_all add: s1_def)
      from Cons.IH[of "Suc i" s1 d1] obtain new2 where n2:
        "outreach (snd (snd (draft_loop loads has_template prompt_exc llm fails dry_run (Suc i) ps
           s1 d1))) = outreach d1 @ new2"
        "\<forall>r\<in>set new2. \<exists>p\<in>set ps. getitem p ''id'' = Inr (dict_get r ''person_id'')"
        by blast
      from n1 n2 show ?thesis
        unfolding step by (intro exI[of _ "new1 @ new2"]) auto
    qed
  qed
qed

lemma drop_drafted_ids:
  "drop_drafted ids ps = Inr qs \<Longrightarrow> p \<in> set qs \<Longrightarrow> getitem p ''id'' = Inr pid \<Longrightarrow>
   pid \<notin> set ids"
proof (induction ps arbitrary: qs)
  case Nil
  then show ?case by simp
next
  case (Cons a ps)
  from Cons.prems(1) obtain aid rs where a: "getitem a ''id'' = Inr aid"
    and rs: "drop_drafted ids ps = Inr rs"
    and qs: "qs = (if aid \<in> set ids then rs else a # rs)"
    by (auto split: sum.splits)
  show ?case
  proof (cases "p \<in> set rs")
    case True
    from Cons.IH[OF rs True Cons.prems(3)] show ?thesis .
  next
    case False
    with Cons.prems(2) qs have "p = a" "aid \<notin> set ids"
      by (auto split: if_splits)
    with a Cons.prems(3) show ?thesis by simp
  qed
qed

text \<open>
  Without \<open>--force\<close>, a run of draft.py leaves the outreach rows of every prospect that
  has one as they are: no row is added for it.
\<close>

lemma draft_main_skips_drafted:
  assumes drafted: "outreach_of pid d \<noteq> []"
  shows "outreach_of pid (draft_store (draft_main loads has_template prompt_exc llm fails person_id
           for_tag min_score dry_run False d)) = outreach_of pid d"
proof -
  define rows where "rows = get_people_to_draft person_id for_tag min_score d"
  from drafted have in_ids: "pid \<in> set (get_already_drafted_ids d)"
    unfolding outreach_of_def get_already_drafted_ids_def
    by (auto simp: filter_empty_conv)
  show ?thesis
  proof (cases "rows = [] \<or> isl (drop_drafted (get_already_drafted_ids d) rows)")
    case True
    then show ?thesis
      unfolding draft_main_def draft_store_def Let_def rows_def[symmetric]
      by (auto split: sum.splits)
  next
    case False
    then obtain todo where ne: "rows \<noteq> []"
      and todo: "drop_drafted (get_already_drafted_ids d) rows = Inr todo"
      by (cases "drop_drafted (get_already_drafted_ids d) rows") auto
    define s0 where "s0 = \<lparr>drafted = 0, skipped = length rows - length todo, draft_errors = 0\<rparr>"
    define run where "run = draft_loop loads has_template prompt_exc llm fails dry_run 0 todo s0 d"
    have store: "draft_store (draft_main loads has_template prompt_exc llm fails person_id
           for_tag min_score dry_run False d) = snd (snd run)"
      unfolding draft_main_def draft_store_def Let_def rows_def[symmetric] run_def s0_def
      using ne todo by (auto split: prod.splits option.splits)
    from draft_loop_outreach[of loads has_template prompt_exc llm fails dry_run 0 todo s0 d]
    obtain new where new: "outreach (snd (snd run)) = outreach d @ new"
      and from_todo: "\<forall>r\<in>set new. \<exists>p\<in>set todo. getitem p ''id'' = Inr (dict_get r ''person_id'')"
      unfolding run_def by blast
    have "dict_get r ''person_id'' \<noteq> pid" if "r \<in> set new" for r
    proof -
      from from_todo that obtain p where "p \<in> set todo"
        "getitem p ''id'' = Inr (dict_get r ''person_id'')"
        by blast
      from drop_drafted_ids[OF todo this] in_ids show ?thesis
        by auto
    qed
    then have "filter (\<lambda>row. dict_get row ''person_id'' = pid) new = []"
      by (simp add: filter_empty_conv)
    then show ?thesis
      unfolding store outreach_of_def new by simp
  qed
qed


text \<open>
  The research path writes an existing outreach row in place: with a row of the
  prospect in the store, \<open>save_to_db\<close> leaves the number of outreach rows as it is.
\<close>

lemma save_to_db_in_place:
  assumes pid: "getitem person ''id'' = Inr pid" and ex: "outreach_of pid d \<noteq> []"
  shows "length (outreach (snd (save_to_db fails person result research tone force d))) =
         length (outreach d)"
proof -
  from ex obtain row rest where rows:
    "filter (\<lambda>row. dict_get row ''person_id'' = pid) (outreach d) = row # rest"
    unfolding outreach_of_def by (cases "filter (\<lambda>row. dict_get row ''person_id'' = pid) (outreach d)") auto
  show ?thesis
  proof (cases "isl (py_subscript result ''subject'') \<or> isl (py_subscript result ''body'') \<or>
                isl (getitem row ''id'')")
    case True
    then show ?thesis
      by (auto simp: save_to_db_def pid rows split: sum.splits)
  next
    case False
    then obtain subject body oid where v: "py_subscript result ''subject'' = Inr subject"
      "py_subscript result ''body'' = Inr body" "getitem row ''id'' = Inr oid"
      by (cases "py_subscript result ''subject''"; cases "py_subscript result ''body''";
          cases "getitem row ''id''") auto
    define u where "u = [(''subject'', subject), (''body'', body), (''research_notes'', research),
        (''tone'', PStr tone), (''status'', PStr ''drafted'')]"
    obtain e d1 where w: "store_write fails (update_outreach u oid) d = (e, d1)"
      by (cases "store_write fails (update_outreach u oid) d") auto
    from length_outreach_store_write_update[of fails u oid d] w
    have l1: "length (outreach d1) = length (outreach d)"
      by simp
    have "outreach (snd (save_to_db fails person result research tone force d)) = outreach d1"
      using v w
      by (cases e) (simp_all add: save_to_db_def pid rows u_def outreach_store_write_people)
    with l1 show ?thesis by simp
  qed
qed

text \<open>Without \<open>--force\<close>, research_draft.py leaves the store of a drafted prospect as it is.\<close>

lemma research_main_skips_drafted:
  assumes "outreach_of (PStr person_id) d \<noteq> []"
  shows "fst (research_main has_template research email_out fails person_id tone for_tag dry_run
           False d) = d"
proof (cases "filter (\<lambda>row. dict_get row ''id'' = PStr person_id) (people d)")
  case Nil
  then show ?thesis by (simp add: research_main_def)
next
  case (Cons person rest)
  then have "person \<in> set (filter (\<lambda>row. dict_get row ''id'' = PStr person_id) (people d))"
    by simp
  then have id: "dict_get person ''id'' = PStr person_id"
    by simp
  show ?thesis
  proof (cases "getitem person ''name''")
    case (Inl e)
    with Cons show ?thesis by (simp add: research_main_def)
  next
    case (Inr n)
    from id have "getitem person ''id'' = Inr (PStr person_id)"
      unfolding dict_get_def dict_get_default_def getitem_def by (simp split: option.splits)
    with Cons Inr assms show ?thesis
      by (simp add: research_main_def outreach_of_def)
  qed
qed

text \<open>With \<open>--force\<close>, research_draft.py adds no outreach row for a drafted prospect.\<close>

lemma research_main_redraft_in_place:
  assumes "outreach_of (PStr person_id) d \<noteq> []"
  shows "length (outreach (fst (research_main has_template research email_out fails person_id tone
           for_tag dry_run True d))) = length (outreach d)"
proof (cases "filter (\<lambda>row. dict_get row ''id'' = PStr person_id) (people d)")
  case Nil
  then show ?thesis by (simp add: research_main_def)
next
  case (Cons person rest)
  then have "person \<in> set (filter (\<lambda>row. dict_get row ''id'' = PStr person_id) (people d))"
    by simp
  then have "dict_get person ''id'' = PStr person_id"
    by simp
  then have pid: "getitem person ''id'' = Inr (PStr person_id)"
    unfolding dict_get_def dict_get_default_def getitem_def by (simp split: option.splits)
  have saved: "length (outreach (snd (save_to_db fails person eml nts tone True d))) =
               length (outreach d)" for eml nts
    by (rule save_to_db_in_place[OF pid assms])
  have saved': "length (outreach d') = length (outreach d)"
    if "save_to_db fails person eml nts tone True d = (e, d')" for eml nts e d'
    using saved[of eml nts] that by simp
  show ?thesis
    by (auto simp: research_main_def Cons pid saved' split: sum.splits pyval.splits prod.splits
        option.splits)
qed

text \<open>
  C3. Re-running drafting for a prospect that already has an outreach row creates no
  new row without \<open>--force\<close>, and with \<open>--force\<close> updates the existing row in place and
  never inserts a second one. The lemmas above give this for a run without \<open>--force\<close>
  on both paths and for the forced research path. The forced run of draft.py breaks
  it: at a store with one prospect and its one outreach row, the run inserts a second
  row for the prospect, where the forced run of research_draft.py leaves one.
\<close>

theorem forced_redraft_inserts_second_row:
  "length (outreach_of (PStr ''p5'') drafted_db) = 1 \<and>
   length (outreach_of (PStr ''p5'')
     (draft_store (draft_main loads_example any_template prompt_fine draft_llm no_failure None None
        40 False True drafted_db))) = 2 \<and>
   length (outreach_of (PStr ''p5'')
     (fst (research_main any_template (Inr (PDict [])) (Inr draft_result) no_failure ''p5'' ''warm''
        None False True drafted_db))) = 1"
  by code_simp

end
